theory Spec2Isabelle
  imports Main
begin

section \<open>The Avro schema model\<close>

text \<open>
  The translator (\<^verbatim>\<open>avro-typescript/index.ts\<close>, the copy with \<^verbatim>\<open>hasDefaultValue\<close>) walks a
  schema that \<^verbatim>\<open>JSON.parse\<close> produced. The TypeScript type \<^verbatim>\<open>Type\<close> is an untagged union that
  \<^verbatim>\<open>convertType\<close> probes by shape; here every shape is a constructor, in the order of the
  probes: a string, an array (a union), a record, an array type, a map type, an enum, a
  logical decimal, and whatever else the parser delivered: a number, a boolean or an object
  of no known shape (\<open>Other\<close>), the value \<^verbatim>\<open>null\<close> (\<open>Null\<close>), or nothing at all, where the key
  \<^verbatim>\<open>type\<close>, \<^verbatim>\<open>items\<close> or \<^verbatim>\<open>values\<close> is missing (\<open>Undefined\<close>).

  A field's \<^verbatim>\<open>default\<close> is any JSON value or absent (\<^verbatim>\<open>undefined\<close>). Only the truthiness of a
  number matters to the translator, and a JSON number is falsy exactly when it is zero, so
  numbers are integers here.
\<close>

datatype json =
    JNull
  | JBool bool
  | JNum int
  | JStr string
  | JArr "json list"
  | JObj "(string \<times> json) list"

datatype unrecognised =
    UNumber int
  | UBoolean bool
  | UObject "(string \<times> json) list"

datatype enumType = EnumType (ename: string) (edoc: "string option") (symbols: "string list")

datatype avro =
    Prim string
  | Union "avro list"
  | Rec recordType
  | ArrayT avro
  | MapT avro
  | Enum enumType
  | LogicalDecimal
  | Other unrecognised
  | Null
  | Undefined
and recordType = RecordType (rname: string) (rdoc: "string option") (rfields: "field list")
and field = Field (fname: string) (fdoc: "string option") (fdefault: "json option") (ftype: avro)

text \<open>The argument of \<^verbatim>\<open>avroToTypeScript\<close>, of type \<^verbatim>\<open>RecordType | EnumType\<close>.\<close>

datatype schema = TopRecord recordType | TopEnum enumType

text \<open>JavaScript's \<^verbatim>\<open>!!v\<close> on a JSON value.\<close>

fun truthy :: "json \<Rightarrow> bool" where
  "truthy JNull = False"
| "truthy (JBool b) = b"
| "truthy (JNum n) = (n \<noteq> 0)"
| "truthy (JStr s) = (s \<noteq> [])"
| "truthy (JArr xs) = True"
| "truthy (JObj kvs) = True"

section \<open>Strings\<close>

abbreviation (input) NL :: string where "NL \<equiv> [CHR 0x0A]"
abbreviation (input) TAB :: string where "TAB \<equiv> [CHR 0x09]"
abbreviation (input) QUOTE :: string where "QUOTE \<equiv> [CHR 0x27]"

text \<open>\<^verbatim>\<open>s.split(c)\<close> for a one-character separator: never empty, one more piece than separators.\<close>

fun split :: "char \<Rightarrow> string \<Rightarrow> string list" where
  "split c [] = [[]]"
| "split c (x # xs) =
     (if x = c then [] # split c xs
      else (case split c xs of [] \<Rightarrow> [[x]] | y # ys \<Rightarrow> (x # y) # ys))"

text \<open>\<^verbatim>\<open>xs.join(sep)\<close>.\<close>

fun join :: "string \<Rightarrow> string list \<Rightarrow> string" where
  "join sep [] = []"
| "join sep [x] = x"
| "join sep (x # y # ys) = x @ sep @ join sep (y # ys)"

text \<open>\<^verbatim>\<open>const stripNamespace = (name: string) => name.split('.').pop() as string;\<close>\<close>

definition stripNamespace :: "string \<Rightarrow> string" where
  "stripNamespace name = last (split CHR ''.'' name)"

text \<open>\<^verbatim>\<open>arr.indexOf(v)\<close>: the first position of \<open>v\<close>, or \<open>-1\<close>.\<close>

fun indexOf :: "'a list \<Rightarrow> 'a \<Rightarrow> int" where
  "indexOf [] v = - 1"
| "indexOf (x # xs) v =
     (if x = v then 0 else (let i = indexOf xs v in if i < 0 then - 1 else i + 1))"

text \<open>
  \<^verbatim>\<open>const isUnique = (value, index, arr) => arr.indexOf(value) === index;\<close> and
  \<^verbatim>\<open>arr.filter(isUnique)\<close>, which hands the callback each value with its index and the array.
\<close>

definition isUnique :: "string \<Rightarrow> nat \<Rightarrow> string list \<Rightarrow> bool" where
  "isUnique v index arr = (indexOf arr v = int index)"

definition filter_isUnique :: "string list \<Rightarrow> string list" where
  "filter_isUnique arr =
     map fst (filter (\<lambda>(v, index). isUnique v index arr) (zip arr [0..<length arr]))"

text \<open>\<^verbatim>\<open>const isUnion = (s: string) => s.indexOf('|') >= 0;\<close>\<close>

definition isUnion :: "string \<Rightarrow> bool" where
  "isUnion s = (indexOf s CHR ''|'' \<ge> 0)"

section \<open>The resolution table\<close>

text \<open>
  \<^verbatim>\<open>const interfaces = {} as { [key: string]: string };\<close> is a plain object used as a
  dictionary, module-wide. It is a partial map here, with the two places written out where an
  object is not a dictionary:
  \<^item> \<^verbatim>\<open>interfaces['__proto__'] = s\<close> with a string \<open>s\<close> runs the inherited setter, which ignores
    a value that is neither an object nor null: nothing is stored;
  \<^item> once the key \<^verbatim>\<open>hasOwnProperty\<close> is stored, \<^verbatim>\<open>interfaces.hasOwnProperty\<close> is that string
    and calling it throws a TypeError.
\<close>

datatype error = TypeError

type_synonym table = "string \<rightharpoonup> string"

definition register :: "table \<Rightarrow> string \<Rightarrow> string \<Rightarrow> table" where
  "register tbl k v = (if k = ''__proto__'' then tbl else tbl(k \<mapsto> v))"

text \<open>\<^verbatim>\<open>interfaces.hasOwnProperty(n) ? interfaces[n] : n\<close>\<close>

definition resolve :: "table \<Rightarrow> string \<Rightarrow> error + string" where
  "resolve tbl n =
     (if tbl ''hasOwnProperty'' \<noteq> None then Inl TypeError
      else Inr (case tbl n of Some v \<Rightarrow> v | None \<Rightarrow> n))"

text \<open>\<^verbatim>\<open>names.map(n => (interfaces.hasOwnProperty(n) ? interfaces[n] : n))\<close>\<close>

fun resolveAll :: "table \<Rightarrow> string list \<Rightarrow> error + string list" where
  "resolveAll tbl [] = Inr []"
| "resolveAll tbl (n # ns) =
     (case resolve tbl n of
        Inl e \<Rightarrow> Inl e
      | Inr v \<Rightarrow> (case resolveAll tbl ns of Inl e \<Rightarrow> Inl e | Inr vs \<Rightarrow> Inr (v # vs)))"

section \<open>The translator\<close>

text \<open>
  The state the translator mutates: the output \<^verbatim>\<open>buffer\<close> (blocks, in the order pushed), the
  module-wide table \<^verbatim>\<open>interfaces\<close>, and what \<^verbatim>\<open>console.error\<close> has been handed.
\<close>

record state =
  buffer :: "string list"
  interfaces :: table
  console :: "avro list"

text \<open>
  \<^verbatim>\<open>createDocumentation(doc, 80, indent)\<close> is imported from \<^verbatim>\<open>../utils\<close>, which is not among the
  sources: the translator takes it as the parameter \<open>cd\<close>.
\<close>

type_synonym docfn = "string option \<Rightarrow> nat \<Rightarrow> string \<Rightarrow> string"

text \<open>\<^verbatim>\<open>const document = (field, indent = '') => createDocumentation(field.doc, 80, indent);\<close>\<close>

definition document :: "docfn \<Rightarrow> string option \<Rightarrow> string \<Rightarrow> string" where
  "document cd doc indent = cd doc 80 indent"

text \<open>
  Modelled from the spec: \<^verbatim>\<open>isOptional\<close> is exported by \<^verbatim>\<open>./model\<close>, which is not among the
  sources. Section 3 of the specification: a field is optional if its type is a union
  containing the null primitive, or is null itself.
\<close>

fun isOptional :: "avro \<Rightarrow> bool" where
  "isOptional (Prim n) = (n = ''null'')"
| "isOptional (Union ts) = (Prim ''null'' \<in> set ts)"
| "isOptional t = False"

text \<open>The strings \<^verbatim>\<open>convertPrimitive\<close> has a \<^verbatim>\<open>case\<close> label for.\<close>

definition primitiveNames :: "string set" where
  "primitiveNames = {''long'', ''int'', ''double'', ''float'', ''bytes'', ''null'', ''boolean''}"

text \<open>\<^verbatim>\<open>convertPrimitive\<close>: the \<^verbatim>\<open>switch\<close>, case by case; the default case consults the table.\<close>

definition convertPrimitive :: "table \<Rightarrow> string \<Rightarrow> bool \<Rightarrow> error + string" where
  "convertPrimitive tbl avroType hasDefaultValue =
     (if avroType = ''long'' \<or> avroType = ''int'' \<or> avroType = ''double'' \<or> avroType = ''float''
        then Inr ''number''
      else if avroType = ''bytes'' then Inr ''Buffer''
      else if avroType = ''null''
        then (if hasDefaultValue then Inr ''null'' else Inr ''null | undefined'')
      else if avroType = ''boolean'' then Inr ''boolean''
      else (let cleanName = stripNamespace avroType in resolve tbl cleanName))"

text \<open>\<^verbatim>\<open>convertEnum\<close>: pushes the block and returns \<^verbatim>\<open>enumType.name\<close>; the table is not touched.\<close>

definition enumDef :: "docfn \<Rightarrow> enumType \<Rightarrow> string" where
  "enumDef cd enumType =
     document cd (edoc enumType) [] @ ''export enum '' @ ename enumType @ '' {'' @ NL @
     TAB @ join ('','' @ NL @ TAB) (map (\<lambda>s. s @ '' = '' @ QUOTE @ s @ QUOTE) (symbols enumType)) @ NL @
     ''}'' @ NL"

definition convertEnum :: "docfn \<Rightarrow> enumType \<Rightarrow> state \<Rightarrow> string \<times> state" where
  "convertEnum cd enumType s =
     (ename enumType, s\<lparr>buffer := buffer s @ [enumDef cd enumType]\<rparr>)"

text \<open>The name \<^verbatim>\<open>convertRecord\<close> computes before it visits the fields.\<close>

definition cleanName :: "recordType \<Rightarrow> recordType option \<Rightarrow> string" where
  "cleanName recordType parentRecordType =
     (case parentRecordType of
        Some parent \<Rightarrow> ''I'' @ stripNamespace (rname parent) @ stripNamespace (rname recordType)
      | None \<Rightarrow> ''I'' @ stripNamespace (rname recordType))"

definition interfaceDef :: "docfn \<Rightarrow> recordType \<Rightarrow> string \<Rightarrow> string list \<Rightarrow> string" where
  "interfaceDef cd recordType name lines =
     document cd (rdoc recordType) [] @ ''export interface '' @ name @ '' {'' @ NL @
     join NL lines @ NL @
     ''}'' @ NL"

text \<open>\<^verbatim>\<open>const hasDefaultValue = !!(field.default || field.default === null);\<close>\<close>

definition hasDefaultValue :: "json option \<Rightarrow> bool" where
  "hasDefaultValue d = (case d of None \<Rightarrow> False | Some v \<Rightarrow> truthy v \<or> v = JNull)"

text \<open>The text of a field line, once the type is known.\<close>

definition fieldLine :: "docfn \<Rightarrow> field \<Rightarrow> bool \<Rightarrow> string \<Rightarrow> string" where
  "fieldLine cd f dv replacedType =
     document cd (fdoc f) TAB @ TAB @ fname f @
     (if isOptional (ftype f) \<and> \<not> dv then ''?'' else []) @ '': '' @ replacedType @ '';''"

text \<open>
  \<^verbatim>\<open>convertType\<close>, \<^verbatim>\<open>convertRecord\<close> and \<^verbatim>\<open>convertFieldDec\<close> call one another; the two
  \<^verbatim>\<open>map\<close> calls over a union's members and over a record's fields run left to right on the
  same state, so each is a recursion over the list. A TypeError ends the whole call.
  In the union, array and map cases the source calls \<^verbatim>\<open>convertType\<close> with three arguments:
  the parent is \<^verbatim>\<open>undefined\<close> there.

  Modelled from the spec: the shape predicates \<^verbatim>\<open>isRecordType\<close>, \<^verbatim>\<open>isArrayType\<close>, \<^verbatim>\<open>isMapType\<close>,
  \<^verbatim>\<open>isEnumType\<close> and \<^verbatim>\<open>isLogicalDecimalType\<close> are exported by \<^verbatim>\<open>./model\<close>, which is not among
  the sources; they are the tests of section 4.4, one for each constructor. Each reads a
  property of its argument. A node that is \<^verbatim>\<open>null\<close> or \<^verbatim>\<open>undefined\<close> is neither a string nor an
  array, so it reaches \<^verbatim>\<open>isRecordType\<close> unguarded, and the property read throws a TypeError:
  the \<^verbatim>\<open>else\<close> branch with its \<^verbatim>\<open>console.error\<close> is reached by the other unrecognised values only.
\<close>

fun convertType :: "docfn \<Rightarrow> avro \<Rightarrow> bool \<Rightarrow> state \<Rightarrow> recordType option \<Rightarrow> error + string \<times> state"
and convertMembers :: "docfn \<Rightarrow> avro list \<Rightarrow> bool \<Rightarrow> state \<Rightarrow> error + string list \<times> state"
and convertRecord :: "docfn \<Rightarrow> recordType \<Rightarrow> state \<Rightarrow> recordType option \<Rightarrow> error + string \<times> state"
and convertFields :: "docfn \<Rightarrow> field list \<Rightarrow> state \<Rightarrow> recordType \<Rightarrow> error + string list \<times> state"
and convertFieldDec :: "docfn \<Rightarrow> field \<Rightarrow> state \<Rightarrow> recordType option \<Rightarrow> error + string \<times> state"
where
  "convertType cd (Prim t) dv s parent =
     (case convertPrimitive (interfaces s) t dv of Inl e \<Rightarrow> Inl e | Inr n \<Rightarrow> Inr (n, s))"
| "convertType cd (Union ts) dv s parent =
     (case convertMembers cd ts dv s of
        Inl e \<Rightarrow> Inl e
      | Inr (names, s') \<Rightarrow>
          (case resolveAll (interfaces s') names of
             Inl e \<Rightarrow> Inl e
           | Inr resolved \<Rightarrow> Inr (join '' | '' (filter_isUnique resolved), s')))"
| "convertType cd (Rec r) dv s parent = convertRecord cd r s parent"
| "convertType cd (ArrayT items) dv s parent =
     (case convertType cd items dv s None of
        Inl e \<Rightarrow> Inl e
      | Inr (n, s') \<Rightarrow>
          (case resolve (interfaces s') (stripNamespace n) of
             Inl e \<Rightarrow> Inl e
           | Inr properName \<Rightarrow>
               Inr (if isUnion properName then ''Array<'' @ properName @ ''>''
                    else properName @ ''[]'', s')))"
| "convertType cd (MapT vals) dv s parent =
     (case convertType cd vals dv s None of
        Inl e \<Rightarrow> Inl e
      | Inr (n, s') \<Rightarrow> Inr (''{ [key: string]: '' @ n @ '' }'', s'))"
| "convertType cd (Enum e) dv s parent = Inr (convertEnum cd e s)"
| "convertType cd LogicalDecimal dv s parent = Inr (''number'', s)"
| "convertType cd (Other j) dv s parent =
     Inr (''UNKNOWN'', s\<lparr>console := console s @ [Other j]\<rparr>)"
| "convertType cd Null dv s parent = Inl TypeError"
| "convertType cd Undefined dv s parent = Inl TypeError"
| "convertMembers cd [] dv s = Inr ([], s)"
| "convertMembers cd (t # ts) dv s =
     (case convertType cd t dv s None of
        Inl e \<Rightarrow> Inl e
      | Inr (n, s') \<Rightarrow>
          (case convertMembers cd ts dv s' of
             Inl e \<Rightarrow> Inl e
           | Inr (ns, s'') \<Rightarrow> Inr (stripNamespace n # ns, s'')))"
| "convertRecord cd (RecordType name doc fs) s parent =
     (let clean = cleanName (RecordType name doc fs) parent in
      case convertFields cd fs s (RecordType name doc fs) of
        Inl e \<Rightarrow> Inl e
      | Inr (lines, s') \<Rightarrow>
          Inr (clean,
               s'\<lparr>buffer := buffer s' @ [interfaceDef cd (RecordType name doc fs) clean lines],
                  interfaces := register (interfaces s') name clean\<rparr>))"
| "convertFields cd [] s r = Inr ([], s)"
| "convertFields cd (f # fs) s r =
     (case convertFieldDec cd f s (Some r) of
        Inl e \<Rightarrow> Inl e
      | Inr (line, s') \<Rightarrow>
          (case convertFields cd fs s' r of
             Inl e \<Rightarrow> Inl e
           | Inr (lines, s'') \<Rightarrow> Inr (line # lines, s'')))"
| "convertFieldDec cd (Field name doc dflt t) s parent =
     (let dv = hasDefaultValue dflt in
      case convertType cd t dv s parent of
        Inl e \<Rightarrow> Inl e
      | Inr (ty, s') \<Rightarrow>
          (case resolve (interfaces s') ty of
             Inl e \<Rightarrow> Inl e
           | Inr replacedType \<Rightarrow> Inr (fieldLine cd (Field name doc dflt t) dv replacedType, s')))"

text \<open>
  \<^verbatim>\<open>avroToTypeScript\<close>: a fresh buffer, the table as the module left it, and the blocks joined
  by newlines. The state is returned with the text, since the table outlives the call.
\<close>

definition avroToTypeScript :: "docfn \<Rightarrow> schema \<Rightarrow> table \<Rightarrow> avro list \<Rightarrow> error + string \<times> state" where
  "avroToTypeScript cd recordType tbl log =
     (let s = \<lparr>buffer = [], interfaces = tbl, console = log\<rparr> in
      case recordType of
        TopEnum e \<Rightarrow> (let (n, s') = convertEnum cd e s in Inr (join NL (buffer s'), s'))
      | TopRecord r \<Rightarrow>
          (case convertRecord cd r s None of
             Inl e \<Rightarrow> Inl e
           | Inr (n, s') \<Rightarrow> Inr (join NL (buffer s'), s')))"

section \<open>Reference notions\<close>

text \<open>
  The specification's wording of the union's de-duplication: remove duplicates, keeping the
  first occurrence of each member. It is compared with \<open>filter_isUnique\<close> below.
\<close>

fun dedupFirst :: "'a list \<Rightarrow> 'a list" where
  "dedupFirst [] = []"
| "dedupFirst (x # xs) = x # filter (\<lambda>y. y \<noteq> x) (dedupFirst xs)"

text \<open>
  Modelled from the spec: \<^verbatim>\<open>createDocumentation\<close> of \<^verbatim>\<open>../utils\<close>, which is not among the
  sources. Section 4.6: an absent doc gives the empty string; a present one is wrapped at
  whitespace into a block comment, every line behind the indentation and a continuation
  marker, between the comment delimiters, and followed by a newline. It instantiates the
  parameter \<open>cd\<close> in the concrete runs below.
\<close>

fun wrapWords :: "nat \<Rightarrow> string \<Rightarrow> string list \<Rightarrow> string list" where
  "wrapWords width cur [] = [cur]"
| "wrapWords width cur (w # ws) =
     (if cur = [] then wrapWords width w ws
      else if length cur + 1 + length w \<le> width then wrapWords width (cur @ '' '' @ w) ws
      else cur # wrapWords width w ws)"

definition createDocumentation :: docfn where
  "createDocumentation doc width indent =
     (case doc of
        None \<Rightarrow> []
      | Some d \<Rightarrow>
          indent @ ''/**'' @ NL @
          concat (map (\<lambda>l. indent @ '' * '' @ l @ NL)
                    (wrapWords width [] (filter (\<lambda>w. w \<noteq> []) (split CHR '' '' d)))) @
          indent @ '' */'' @ NL)"

text \<open>The state of a fresh module at the first call: nothing emitted, nothing registered.\<close>

definition emptyState :: state where
  "emptyState = \<lparr>buffer = [], interfaces = Map.empty, console = []\<rparr>"

text \<open>What a run returned, read off its result: the name, a table entry.\<close>

definition identifierOf :: "error + string \<times> state \<Rightarrow> string option" where
  "identifierOf r = (case r of Inl e \<Rightarrow> None | Inr (n, s) \<Rightarrow> Some n)"

definition tableOf :: "error + string \<times> state \<Rightarrow> string \<Rightarrow> string option" where
  "tableOf r k = (case r of Inl e \<Rightarrow> None | Inr (n, s) \<Rightarrow> interfaces s k)"







section \<open>Auxiliary facts\<close>

lemma split_not_Nil: "split c s \<noteq> []"
  by (induction s) (auto split: list.splits)

lemma last_split_no_sep: "c \<notin> set (last (split c s))"
proof (induction s)
  case Nil
  then show ?case by simp
next
  case (Cons x xs)
  then show ?case
    using split_not_Nil [of c xs] by (cases "split c xs") auto
qed

lemma split_no_sep: "c \<notin> set s \<Longrightarrow> split c s = [s]"
  by (induction s) auto

lemma stripNamespace_no_dot: "CHR ''.'' \<notin> set (stripNamespace n)"
  by (simp add: stripNamespace_def last_split_no_sep)

lemma stripNamespace_id: "CHR ''.'' \<notin> set n \<Longrightarrow> stripNamespace n = n"
  by (simp add: stripNamespace_def split_no_sep)

lemma split_append_sep: "c \<notin> set n \<Longrightarrow> \<exists>ys. split c (p @ c # n) = ys @ [n] \<and> ys \<noteq> []"
proof (induction p)
  case Nil
  then show ?case by (simp add: split_no_sep)
next
  case (Cons x xs)
  then obtain ys where ys: "split c (xs @ c # n) = ys @ [n]" "ys \<noteq> []" by blast
  then obtain y ys' where y: "ys = y # ys'" by (cases ys) auto
  show ?case
  proof (cases "x = c")
    case True
    with ys show ?thesis by (intro exI [of _ "[] # ys"]) simp
  next
    case False
    with ys y show ?thesis by (intro exI [of _ "(x # y) # ys'"]) simp
  qed
qed

lemma last_split_append: "c \<notin> set n \<Longrightarrow> last (split c (p @ c # n)) = n"
  using split_append_sep [of c n p] by auto

lemma stripNamespace_qualified: "CHR ''.'' \<notin> set n \<Longrightarrow> stripNamespace (p @ ''.'' @ n) = n"
  by (simp add: stripNamespace_def last_split_append)

lemma indexOf_ge: "- 1 \<le> indexOf xs v"
  by (induction xs) (auto simp: Let_def)

lemma indexOf_nonneg_iff: "0 \<le> indexOf xs v \<longleftrightarrow> v \<in> set xs"
  using indexOf_ge [of _ v] by (induction xs) (auto simp: Let_def)

lemma isUnion_iff: "isUnion s \<longleftrightarrow> CHR ''|'' \<in> set s"
  by (simp add: isUnion_def indexOf_nonneg_iff)

lemma indexOf_prefix: "indexOf (pre @ x # xs) x = int (length pre) \<longleftrightarrow> x \<notin> set pre"
proof (induction pre)
  case Nil
  then show ?case by simp
next
  case (Cons a pre)
  have "0 \<le> indexOf (pre @ x # xs) x" by (simp add: indexOf_nonneg_iff)
  with Cons show ?case by (auto simp: Let_def)
qed

lemma filter_isUnique_gen:
  "map fst (filter (\<lambda>(v, index). isUnique v index (pre @ xs)) (zip xs [length pre..<length pre + length xs]))
   = filter (\<lambda>v. v \<notin> set pre) (dedupFirst xs)"
proof (induction xs arbitrary: pre)
  case Nil
  then show ?case by simp
next
  case (Cons x xs)
  have up: "[length pre..<length pre + length (x # xs)]
            = length pre # [length (pre @ [x])..<length (pre @ [x]) + length xs]"
    using upt_conv_Cons [of "length pre" "length pre + Suc (length xs)"] by simp
  have ih: "map fst (filter (\<lambda>(v, index). isUnique v index (pre @ x # xs))
                (zip xs [length (pre @ [x])..<length (pre @ [x]) + length xs]))
            = filter (\<lambda>v. v \<notin> set (pre @ [x])) (dedupFirst xs)"
    using Cons.IH [of "pre @ [x]"] by simp
  have hd: "isUnique x (length pre) (pre @ x # xs) \<longleftrightarrow> x \<notin> set pre"
    by (simp add: isUnique_def indexOf_prefix)
  have flt: "filter (\<lambda>v. v \<notin> set pre) (filter (\<lambda>y. y \<noteq> x) (dedupFirst xs))
             = filter (\<lambda>v. v \<notin> set (pre @ [x])) (dedupFirst xs)"
    by (auto intro: filter_cong)
  show ?case
    unfolding up using ih hd flt
    by (cases "x \<in> set pre") (auto intro: filter_cong)
qed

lemma filter_isUnique_dedupFirst: "filter_isUnique xs = dedupFirst xs"
  using filter_isUnique_gen [of "[]" xs] by (simp add: filter_isUnique_def)

lemma set_dedupFirst: "set (dedupFirst xs) = set xs"
  by (induction xs) auto

lemma distinct_dedupFirst: "distinct (dedupFirst xs)"
  by (induction xs) auto


lemma convertRecord_Inr:
  assumes "convertRecord cd r s parent = Inr (ident, s')"
  shows "ident = cleanName r parent \<and>
         (\<exists>lines s1. convertFields cd (rfields r) s r = Inr (lines, s1) \<and>
            s' = s1\<lparr>buffer := buffer s1 @ [interfaceDef cd r ident lines],
                    interfaces := register (interfaces s1) (rname r) ident\<rparr>)"
  using assms by (cases r) (auto simp: Let_def split: sum.splits)

lemma convertPrimitive_reference:
  assumes "ref \<notin> primitiveNames" and "tbl ''hasOwnProperty'' = None"
  shows "convertPrimitive tbl ref dv =
         Inr (case tbl (stripNamespace ref) of Some v \<Rightarrow> v | None \<Rightarrow> stripNamespace ref)"
  using assms by (simp add: convertPrimitive_def primitiveNames_def resolve_def)

lemma resolve_Inr:
  "tbl ''hasOwnProperty'' = None \<Longrightarrow> resolve tbl n = Inr (case tbl n of Some v \<Rightarrow> v | None \<Rightarrow> n)"
  by (simp add: resolve_def)

lemma resolveAll_Inr:
  "tbl ''hasOwnProperty'' = None \<Longrightarrow>
   resolveAll tbl ns = Inr (map (\<lambda>n. case tbl n of Some v \<Rightarrow> v | None \<Rightarrow> n) ns)"
  by (induction ns) (simp_all add: resolve_Inr)

lemmas run_defs =
  convertPrimitive_def resolve_def stripNamespace_def hasDefaultValue_def fieldLine_def
  document_def createDocumentation_def emptyState_def filter_isUnique_def isUnique_def
  isUnion_def cleanName_def interfaceDef_def register_def convertEnum_def enumDef_def
  Let_def

lemma buffer_kept:
  shows "convertType cd t dv s parent = Inr (n, s') \<Longrightarrow> set (buffer s) \<subseteq> set (buffer s')"
    and "convertMembers cd ts dv s = Inr (ns, s') \<Longrightarrow> set (buffer s) \<subseteq> set (buffer s')"
    and "convertRecord cd r s parent = Inr (n, s') \<Longrightarrow> set (buffer s) \<subseteq> set (buffer s')"
    and "convertFields cd fs s r0 = Inr (ls, s') \<Longrightarrow> set (buffer s) \<subseteq> set (buffer s')"
    and "convertFieldDec cd f s parent = Inr (l, s') \<Longrightarrow> set (buffer s) \<subseteq> set (buffer s')"
proof (induction cd t dv s parent and cd ts dv s and cd r s parent and cd fs s r0 and cd f s parent
       arbitrary: n s' and ns s' and n s' and ls s' and l s'
       rule: convertType_convertMembers_convertRecord_convertFields_convertFieldDec.induct)
  case (1 cd t dv s parent)
  then show ?case by (auto split: sum.splits)
next
  case (2 cd ts dv s parent)
  then show ?case by (auto split: sum.splits)
next
  case (3 cd r dv s parent)
  then show ?case by simp
next
  case (4 cd items dv s parent)
  then show ?case by (auto split: sum.splits)
next
  case (5 cd vals dv s parent)
  then show ?case by (auto split: sum.splits)
next
  case (6 cd e dv s parent)
  then show ?case by (auto simp: convertEnum_def)
next
  case (7 cd dv s parent)
  then show ?case by simp
next
  case (8 cd j dv s parent)
  then show ?case by auto
next
  case (9 cd dv s parent)
  then show ?case by simp
next
  case (10 cd dv s parent)
  then show ?case by simp
next
  case (11 cd dv s)
  then show ?case by simp
next
  case (12 cd t ts dv s)
  from 12(3) obtain n1 s1 ns1 where
    a: "convertType cd t dv s None = Inr (n1, s1)" and b: "convertMembers cd ts dv s1 = Inr (ns1, s')"
    by (auto split: sum.splits)
  from 12(1) [OF a] 12(2) [OF a refl b] show ?case by blast
next
  case (13 cd name doc fs s parent)
  from 13(2) obtain ls s1 blk where
    a: "convertFields cd fs s (RecordType name doc fs) = Inr (ls, s1)"
    and eq: "buffer s' = buffer s1 @ [blk]"
    by (auto simp: Let_def split: sum.splits)
  from eq have b: "set (buffer s1) \<subseteq> set (buffer s')" by auto
  from 13(1) [OF refl a] b show ?case by blast
next
  case (14 cd s r0)
  then show ?case by simp
next
  case (15 cd f fs s r0)
  from 15(3) obtain l1 s1 ls1 where
    a: "convertFieldDec cd f s (Some r0) = Inr (l1, s1)" and b: "convertFields cd fs s1 r0 = Inr (ls1, s')"
    by (auto split: sum.splits)
  from 15(1) [OF a] 15(2) [OF a refl b] show ?case by blast
next
  case (16 cd name doc dflt t s parent)
  from 16(2) obtain ty where "convertType cd t (hasDefaultValue dflt) s parent = Inr (ty, s')"
    by (auto simp: Let_def split: sum.splits)
  from 16(1) [OF refl this] show ?case .
qed

lemma fields_member:
  "convertFields cd fs s r0 = Inr (ls, s') \<Longrightarrow> f \<in> set fs \<Longrightarrow>
   \<exists>s1 l s2. convertFieldDec cd f s1 (Some r0) = Inr (l, s2) \<and> set (buffer s2) \<subseteq> set (buffer s')"
proof (induction fs arbitrary: s ls)
  case Nil
  then show ?case by simp
next
  case (Cons g gs)
  from Cons.prems(1) obtain l1 s1 ls1 where
    a: "convertFieldDec cd g s (Some r0) = Inr (l1, s1)" and b: "convertFields cd gs s1 r0 = Inr (ls1, s')"
    by (auto split: sum.splits)
  show ?case
  proof (cases "f = g")
    case True
    with a buffer_kept(4) [OF b] show ?thesis by blast
  next
    case False
    with Cons.prems(2) have "f \<in> set gs" by simp
    from Cons.IH [OF b this] show ?thesis .
  qed
qed

lemma members_member:
  "convertMembers cd ts dv s = Inr (ns, s') \<Longrightarrow> t \<in> set ts \<Longrightarrow>
   \<exists>s1 n s2. convertType cd t dv s1 None = Inr (n, s2) \<and> set (buffer s2) \<subseteq> set (buffer s')"
proof (induction ts arbitrary: s ns)
  case Nil
  then show ?case by simp
next
  case (Cons u us)
  from Cons.prems(1) obtain n1 s1 ns1 where
    a: "convertType cd u dv s None = Inr (n1, s1)" and b: "convertMembers cd us dv s1 = Inr (ns1, s')"
    by (auto split: sum.splits)
  show ?case
  proof (cases "t = u")
    case True
    with a buffer_kept(2) [OF b] show ?thesis by blast
  next
    case False
    with Cons.prems(2) have "t \<in> set us" by simp
    from Cons.IH [OF b this] show ?thesis .
  qed
qed

lemma record_block:
  "convertRecord cd r s parent = Inr (ident, s') \<Longrightarrow>
   \<exists>lines. interfaceDef cd r (cleanName r parent) lines \<in> set (buffer s')"
  using convertRecord_Inr [of cd r s parent ident s'] by auto

lemma record_field:
  assumes "convertRecord cd r s parent = Inr (ident, s')" and "f \<in> set (rfields r)"
  shows "\<exists>s1 l s2. convertFieldDec cd f s1 (Some r) = Inr (l, s2) \<and> set (buffer s2) \<subseteq> set (buffer s')"
proof -
  from convertRecord_Inr [OF assms(1)] obtain lines s1 blk where
    a: "convertFields cd (rfields r) s r = Inr (lines, s1)" and eq: "buffer s' = buffer s1 @ [blk]"
    by auto
  from eq have b: "set (buffer s1) \<subseteq> set (buffer s')" by auto
  from fields_member [OF a assms(2)] b show ?thesis by blast
qed

section \<open>Field declarations: the optional marker (C1)\<close>

text \<open>
  C1. The claim: a field carries \<open>?\<close> exactly when its type is structurally optional and no
  default key is present, any present default (null, false, 0, the empty string) making it
  non-optional. \<^verbatim>\<open>convertFieldDec\<close> computes \<^verbatim>\<open>hasDefaultValue\<close> by truthiness with null added,
  so the falsy defaults \<^verbatim>\<open>false\<close>, \<^verbatim>\<open>0\<close> and \<^verbatim>\<open>""\<close> count as no default: each of the three
  nullable fields below has a default and is still rendered optional, its null member as
  \<open>null | undefined\<close>.
\<close>

theorem C1_falsy_default_rendered_optional:
  "convertFieldDec createDocumentation
     (Field ''f'' None (Some (JBool False)) (Union [Prim ''null'', Prim ''boolean'']))
     emptyState (Some (RecordType ''R'' None []))
   = Inr (TAB @ ''f?: null | undefined | boolean;'', emptyState)
   \<and> convertFieldDec createDocumentation
     (Field ''n'' None (Some (JNum 0)) (Union [Prim ''null'', Prim ''int'']))
     emptyState (Some (RecordType ''R'' None []))
   = Inr (TAB @ ''n?: null | undefined | number;'', emptyState)
   \<and> convertFieldDec createDocumentation
     (Field ''t'' None (Some (JStr [])) (Union [Prim ''null'', Prim ''string'']))
     emptyState (Some (RecordType ''R'' None []))
   = Inr (TAB @ ''t?: null | undefined | string;'', emptyState)"
  by (simp add: run_defs)

section \<open>Enums (C4)\<close>

text \<open>
  C4. The claim: the enum's identifier is its namespace-stripped name, the same at top level
  and nested, and the block lists each symbol once, in order, as \<open>S = 'S'\<close>.
  \<^verbatim>\<open>convertEnum\<close> writes \<^verbatim>\<open>enumType.name\<close> as it is declared, where \<^verbatim>\<open>convertRecord\<close> strips:
  an enum declared \<open>com.ex.Color\<close> is emitted and returned under the dotted name.
\<close>

theorem C4_dotted_enum_name_not_stripped:
  "convertEnum createDocumentation (EnumType ''com.ex.Color'' None [''RED'', ''GREEN'']) emptyState
   = (''com.ex.Color'',
      emptyState\<lparr>buffer :=
        [''export enum com.ex.Color {'' @ NL @
         TAB @ ''RED = '' @ QUOTE @ ''RED'' @ QUOTE @ '','' @ NL @
         TAB @ ''GREEN = '' @ QUOTE @ ''GREEN'' @ QUOTE @ NL @
         ''}'' @ NL]\<rparr>)
   \<and> stripNamespace ''com.ex.Color'' = ''Color''"
  by (simp add: run_defs)

section \<open>Registration and later references (C2)\<close>

text \<open>
  C2, as claimed: right after a record or an enum is translated the table maps its declared
  name to its identifier. \<^verbatim>\<open>convertEnum\<close> never writes the table: after the enum \<open>Color\<close> the
  table has no entry for it.
\<close>

theorem C2_enum_not_registered:
  "tableOf (Inr (convertEnum createDocumentation (EnumType ''Color'' None [''RED'']) emptyState)) ''Color''
   \<noteq> identifierOf (Inr (convertEnum createDocumentation (EnumType ''Color'' None [''RED'']) emptyState))"
  by (simp add: run_defs tableOf_def identifierOf_def)

text \<open>
  C2, amended. A record whose declared name is not \<open>__proto__\<close> is registered under its
  declared name with its identifier; an enum leaves the table as it was. A later reference
  that is not a primitive name and whose namespace-stripped text is the declared name
  renders as the identifier: for a record while its entry stands, for an enum while the
  table has no entry under that name (the reference then renders as the stripped text, which
  is the enum's name). Both need a table without the key \<open>hasOwnProperty\<close>.
\<close>

theorem C2_record_registered_reference_resolved:
  "(convertRecord cd r s parent = Inr (ident, s') \<and> rname r \<noteq> ''__proto__''
      \<longrightarrow> interfaces s' (rname r) = Some ident \<and>
          (\<forall>ref dv tbl. stripNamespace ref = rname r \<and> ref \<notin> primitiveNames \<and>
              tbl (rname r) = Some ident \<and> tbl ''hasOwnProperty'' = None
              \<longrightarrow> convertPrimitive tbl ref dv = Inr ident))
   \<and> interfaces (snd (convertEnum cd e s0)) = interfaces s0
   \<and> (\<forall>ref dv tbl. stripNamespace ref = ename e \<and> ref \<notin> primitiveNames \<and>
              tbl (ename e) = None \<and> tbl ''hasOwnProperty'' = None
              \<longrightarrow> convertPrimitive tbl ref dv = Inr (fst (convertEnum cd e s0)))"
proof (intro conjI allI impI)
  assume a: "convertRecord cd r s parent = Inr (ident, s') \<and> rname r \<noteq> ''__proto__''"
  then have run: "convertRecord cd r s parent = Inr (ident, s')" by simp
  from convertRecord_Inr [OF run] a
  show "interfaces s' (rname r) = Some ident"
    by (auto simp: register_def)
next
  fix ref dv and tbl :: table
  assume h: "stripNamespace ref = rname r \<and> ref \<notin> primitiveNames \<and>
             tbl (rname r) = Some ident \<and> tbl ''hasOwnProperty'' = None"
  then show "convertPrimitive tbl ref dv = Inr ident"
    by (simp add: convertPrimitive_reference)
next
  show "interfaces (snd (convertEnum cd e s0)) = interfaces s0"
    by (simp add: convertEnum_def)
next
  fix ref dv and tbl :: table
  assume h: "stripNamespace ref = ename e \<and> ref \<notin> primitiveNames \<and>
             tbl (ename e) = None \<and> tbl ''hasOwnProperty'' = None"
  then show "convertPrimitive tbl ref dv = Inr (fst (convertEnum cd e s0))"
    by (simp add: convertPrimitive_reference convertEnum_def)
qed

theorem C2_record_registered_reference_resolved_witness:
  "convertRecord createDocumentation (RecordType ''Rec'' None []) emptyState None
     = Inr (''IRec'', emptyState\<lparr>buffer := [''export interface IRec {'' @ NL @ NL @ ''}'' @ NL],
                                interfaces := [''Rec'' \<mapsto> ''IRec'']\<rparr>)
   \<and> convertPrimitive [''Rec'' \<mapsto> ''IRec''] ''ns.Rec'' False = Inr ''IRec''
   \<and> convertPrimitive Map.empty ''ns.Color'' False
       = Inr (fst (convertEnum createDocumentation (EnumType ''Color'' None [''RED'']) emptyState))"
proof -
  let ?s' = "emptyState\<lparr>buffer := [''export interface IRec {'' @ NL @ NL @ ''}'' @ NL],
                                interfaces := [''Rec'' \<mapsto> ''IRec'']\<rparr>"
  have run: "convertRecord createDocumentation (RecordType ''Rec'' None []) emptyState None
     = Inr (''IRec'', ?s')"
    by (simp add: run_defs)
  have ref: "stripNamespace ''ns.Rec'' = ''Rec'' \<and> ''ns.Rec'' \<notin> primitiveNames
             \<and> stripNamespace ''ns.Color'' = ''Color'' \<and> ''ns.Color'' \<notin> primitiveNames"
    by (simp add: stripNamespace_def primitiveNames_def)
  note inst = C2_record_registered_reference_resolved
      [of createDocumentation "RecordType ''Rec'' None []" emptyState None "''IRec''" ?s'
          "EnumType ''Color'' None [''RED'']" emptyState]
  have a: "convertPrimitive [''Rec'' \<mapsto> ''IRec''] ''ns.Rec'' False = Inr ''IRec''"
    using inst run ref by simp
  have b: "convertPrimitive Map.empty ''ns.Color'' False
       = Inr (fst (convertEnum createDocumentation (EnumType ''Color'' None [''RED'']) emptyState))"
    using inst ref by simp
  from run a b show ?thesis by simp
qed

section \<open>Arrays (C8)\<close>

text \<open>
  C8. The element name of an array is the translation of its items, namespace-stripped and
  resolved through the table. If it contains \<open>|\<close> the array is rendered \<open>Array<element>\<close>,
  otherwise as the element followed by \<open>[]\<close>; whatever the array renders as, it is never a
  text with a \<open>|\<close> followed by \<open>[]\<close>.
\<close>

theorem C8_array_of_union_parametrized:
  "(convertType cd items dv s None = Inr (n, s') \<and> interfaces s' ''hasOwnProperty'' = None \<and>
    elem = (case interfaces s' (stripNamespace n) of Some v \<Rightarrow> v | None \<Rightarrow> stripNamespace n)
      \<longrightarrow> convertType cd (ArrayT items) dv s parent
            = Inr (if CHR ''|'' \<in> set elem then ''Array<'' @ elem @ ''>'' else elem @ ''[]'', s'))
   \<and> (convertType cd (ArrayT items) dv s parent = Inr (r, s2) \<and> CHR ''|'' \<in> set x
      \<longrightarrow> r \<noteq> x @ ''[]'')"
proof (intro conjI impI)
  assume "convertType cd items dv s None = Inr (n, s') \<and> interfaces s' ''hasOwnProperty'' = None \<and>
    elem = (case interfaces s' (stripNamespace n) of Some v \<Rightarrow> v | None \<Rightarrow> stripNamespace n)"
  then show "convertType cd (ArrayT items) dv s parent
            = Inr (if CHR ''|'' \<in> set elem then ''Array<'' @ elem @ ''>'' else elem @ ''[]'', s')"
    by (simp add: resolve_Inr isUnion_iff)
next
  assume a: "convertType cd (ArrayT items) dv s parent = Inr (r, s2) \<and> CHR ''|'' \<in> set x"
  then obtain properName where
    r: "r = (if isUnion properName then ''Array<'' @ properName @ ''>'' else properName @ ''[]'')"
    by (auto split: sum.splits)
  show "r \<noteq> x @ ''[]''"
  proof (cases "isUnion properName")
    case True
    with r have "last r = CHR ''>''" by simp
    moreover have "last (x @ ''[]'') = CHR '']''" by simp
    ultimately show ?thesis by auto
  next
    case False
    with r have "r = properName @ ''[]''" by simp
    moreover from False have "CHR ''|'' \<notin> set properName" by (simp add: isUnion_iff)
    ultimately show ?thesis using a by auto
  qed
qed

theorem C8_array_of_union_parametrized_witness:
  "convertType createDocumentation (Union [Prim ''A'', Prim ''B'']) False emptyState None
     = Inr (''A | B'', emptyState)
   \<and> interfaces emptyState ''hasOwnProperty'' = None
   \<and> convertType createDocumentation (ArrayT (Union [Prim ''A'', Prim ''B''])) False emptyState None
     = Inr (''Array<A | B>'', emptyState)
   \<and> CHR ''|'' \<in> set ''A | B'' \<and> ''Array<A | B>'' \<noteq> ''A | B'' @ ''[]''"
proof -
  have run: "convertType createDocumentation (Union [Prim ''A'', Prim ''B'']) False emptyState None
     = Inr (''A | B'', emptyState)"
    by (simp add: run_defs)
  have tbl: "interfaces emptyState ''hasOwnProperty'' = None"
    by (simp add: emptyState_def)
  have elem: "''A | B'' = (case interfaces emptyState (stripNamespace ''A | B'') of
                             Some v \<Rightarrow> v | None \<Rightarrow> stripNamespace ''A | B'')"
    by (simp add: emptyState_def stripNamespace_def)
  have bar: "CHR ''|'' \<in> set ''A | B''" by simp
  note inst = C8_array_of_union_parametrized
     [of createDocumentation "Union [Prim ''A'', Prim ''B'']" False emptyState "''A | B''" emptyState
         "''A | B''" None "''Array<A | B>''" emptyState "''A | B''"]
  from inst run tbl elem
  have "convertType createDocumentation (ArrayT (Union [Prim ''A'', Prim ''B''])) False emptyState None
     = Inr (if CHR ''|'' \<in> set ''A | B'' then ''Array<'' @ ''A | B'' @ ''>''
            else ''A | B'' @ ''[]'', emptyState)"
    by blast
  then have arr: "convertType createDocumentation (ArrayT (Union [Prim ''A'', Prim ''B''])) False
       emptyState None = Inr (''Array<A | B>'', emptyState)"
    by simp
  with inst bar have "''Array<A | B>'' \<noteq> ''A | B'' @ ''[]''"
    by blast
  with run tbl arr bar show ?thesis by blast
qed

section \<open>The second lookup of a field's type (C10)\<close>

text \<open>
  C10. \<^verbatim>\<open>convertFieldDec\<close> looks the rendered type of the field up in the table once more,
  and writes the table's entry in its place. Hence, once a record is registered under a
  declared name that is a rendered type (a record named \<open>number\<close>, say), a later field
  whose type renders as that name is written with the record's identifier, as long as the
  entry stands.
\<close>

theorem C10_rendered_type_looked_up_again:
  "(convertType cd t (hasDefaultValue dflt) s parent = Inr (ty, s') \<and>
    interfaces s' ''hasOwnProperty'' = None
      \<longrightarrow> convertFieldDec cd (Field n d dflt t) s parent
            = Inr (fieldLine cd (Field n d dflt t) (hasDefaultValue dflt)
                     (case interfaces s' ty of Some v \<Rightarrow> v | None \<Rightarrow> ty), s'))
   \<and> (convertRecord cd r s0 p = Inr (ident, s1) \<and> rname r \<noteq> ''__proto__'' \<and>
      convertType cd t (hasDefaultValue dflt) s parent = Inr (rname r, s') \<and>
      interfaces s' (rname r) = interfaces s1 (rname r) \<and>
      interfaces s' ''hasOwnProperty'' = None
      \<longrightarrow> convertFieldDec cd (Field n d dflt t) s parent
            = Inr (fieldLine cd (Field n d dflt t) (hasDefaultValue dflt) ident, s'))"
proof (intro conjI impI)
  assume "convertType cd t (hasDefaultValue dflt) s parent = Inr (ty, s') \<and>
    interfaces s' ''hasOwnProperty'' = None"
  then show "convertFieldDec cd (Field n d dflt t) s parent
            = Inr (fieldLine cd (Field n d dflt t) (hasDefaultValue dflt)
                     (case interfaces s' ty of Some v \<Rightarrow> v | None \<Rightarrow> ty), s')"
    by (simp add: Let_def resolve_Inr)
next
  assume a: "convertRecord cd r s0 p = Inr (ident, s1) \<and> rname r \<noteq> ''__proto__'' \<and>
      convertType cd t (hasDefaultValue dflt) s parent = Inr (rname r, s') \<and>
      interfaces s' (rname r) = interfaces s1 (rname r) \<and>
      interfaces s' ''hasOwnProperty'' = None"
  then have run: "convertRecord cd r s0 p = Inr (ident, s1)" by simp
  from convertRecord_Inr [OF run] a have "interfaces s1 (rname r) = Some ident"
    by (auto simp: register_def)
  with a show "convertFieldDec cd (Field n d dflt t) s parent
            = Inr (fieldLine cd (Field n d dflt t) (hasDefaultValue dflt) ident, s')"
    by (simp add: Let_def resolve_Inr)
qed

theorem C10_rendered_type_looked_up_again_witness:
  "convertRecord createDocumentation (RecordType ''number'' None []) emptyState None
     = Inr (''Inumber'',
            emptyState\<lparr>buffer := [''export interface Inumber {'' @ NL @ NL @ ''}'' @ NL],
                       interfaces := [''number'' \<mapsto> ''Inumber'']\<rparr>)
   \<and> convertFieldDec createDocumentation (Field ''age'' None None (Prim ''int''))
       (emptyState\<lparr>buffer := [''export interface Inumber {'' @ NL @ NL @ ''}'' @ NL],
                       interfaces := [''number'' \<mapsto> ''Inumber'']\<rparr>) None
     = Inr (TAB @ ''age: Inumber;'',
            emptyState\<lparr>buffer := [''export interface Inumber {'' @ NL @ NL @ ''}'' @ NL],
                       interfaces := [''number'' \<mapsto> ''Inumber'']\<rparr>)"
proof -
  let ?r = "RecordType ''number'' None []"
  let ?s1 = "emptyState\<lparr>buffer := [''export interface Inumber {'' @ NL @ NL @ ''}'' @ NL],
                       interfaces := [''number'' \<mapsto> ''Inumber'']\<rparr>"
  have run: "convertRecord createDocumentation ?r emptyState None = Inr (''Inumber'', ?s1)"
    by (simp add: run_defs)
  have name: "rname ?r \<noteq> ''__proto__''" by simp
  have ty: "convertType createDocumentation (Prim ''int'') (hasDefaultValue None) ?s1 None
              = Inr (rname ?r, ?s1)"
    by (simp add: convertPrimitive_def)
  have tbl: "interfaces ?s1 (rname ?r) = interfaces ?s1 (rname ?r) \<and>
             interfaces ?s1 ''hasOwnProperty'' = None"
    by (simp add: emptyState_def)
  note inst = C10_rendered_type_looked_up_again
     [of createDocumentation "Prim ''int''" None ?s1 None _ ?s1 "''age''" None ?r emptyState None
         "''Inumber''" ?s1]
  from inst run name ty tbl
  have "convertFieldDec createDocumentation (Field ''age'' None None (Prim ''int'')) ?s1 None
     = Inr (fieldLine createDocumentation (Field ''age'' None None (Prim ''int''))
              (hasDefaultValue None) ''Inumber'', ?s1)"
    by blast
  then have "convertFieldDec createDocumentation (Field ''age'' None None (Prim ''int'')) ?s1 None
     = Inr (TAB @ ''age: Inumber;'', ?s1)"
    by (simp add: fieldLine_def document_def createDocumentation_def hasDefaultValue_def)
  with run show ?thesis by blast
qed

section \<open>Record identifiers (C3)\<close>

text \<open>
  C3, as claimed: two nested records of the same name under two different parents always
  get distinct identifiers. The parents \<open>x.P\<close> and \<open>y.P\<close> are different records, and the
  record \<open>Address\<close> nested in either is named \<open>IPAddress\<close>.
\<close>

theorem C3_same_stripped_parent_collides:
  "RecordType ''x.P'' None [Field ''home'' None None (Rec (RecordType ''Address'' None []))]
     \<noteq> RecordType ''y.P'' None [Field ''home'' None None (Rec (RecordType ''Address'' None []))]
   \<and> tableOf (convertRecord createDocumentation
        (RecordType ''x.P'' None [Field ''home'' None None (Rec (RecordType ''Address'' None []))])
        emptyState None) ''Address'' = Some ''IPAddress''
   \<and> tableOf (convertRecord createDocumentation
        (RecordType ''y.P'' None [Field ''home'' None None (Rec (RecordType ''Address'' None []))])
        emptyState None) ''Address'' = Some ''IPAddress''"
  by (simp add: run_defs tableOf_def)

text \<open>
  C3, amended. A record translated with a parent is named \<open>I\<close>, the parent's stripped name,
  its own stripped name; without a parent, as at top level, \<open>I\<close> and its own stripped name;
  the block pushed last carries that identifier. The parent of a record that is the type
  of a field is the record the field belongs to, whatever parent that record had itself:
  the nested record is translated with it, and its block, under the identifier made of the
  two names, is among the blocks of the enclosing record's run. Hence two nested records
  of the same name get distinct identifiers whenever the namespace-stripped names of the
  records enclosing them differ.
\<close>

theorem C3_record_identifier:
  "(convertRecord cd r s (Some p) = Inr (ident, s')
      \<longrightarrow> ident = ''I'' @ stripNamespace (rname p) @ stripNamespace (rname r)
          \<and> (\<exists>lines. last (buffer s') = interfaceDef cd r ident lines))
   \<and> (convertRecord cd r s None = Inr (ident, s')
      \<longrightarrow> ident = ''I'' @ stripNamespace (rname r)
          \<and> (\<exists>lines. last (buffer s') = interfaceDef cd r ident lines))
   \<and> (avroToTypeScript cd (TopRecord r) tbl log = Inr (text, s')
      \<longrightarrow> text = join NL (buffer s')
          \<and> (\<exists>lines. last (buffer s')
                 = interfaceDef cd r (''I'' @ stripNamespace (rname r)) lines))
   \<and> (convertRecord cd r s parent = Inr (ident, s') \<and> Field n d dflt (Rec r') \<in> set (rfields r)
      \<longrightarrow> (\<exists>s1 s2. convertRecord cd r' s1 (Some r)
                       = Inr (''I'' @ stripNamespace (rname r) @ stripNamespace (rname r'), s2)
                     \<and> set (buffer s2) \<subseteq> set (buffer s'))
          \<and> (\<exists>lines. interfaceDef cd r'
                         (''I'' @ stripNamespace (rname r) @ stripNamespace (rname r')) lines
                       \<in> set (buffer s')))
   \<and> (convertRecord cd r1 s1 q1 = Inr (i1, s1') \<and> Field n1 d1 dflt1 (Rec a1) \<in> set (rfields r1) \<and>
      convertRecord cd r2 s2 q2 = Inr (i2, s2') \<and> Field n2 d2 dflt2 (Rec a2) \<in> set (rfields r2) \<and>
      rname a1 = rname a2 \<and> stripNamespace (rname r1) \<noteq> stripNamespace (rname r2)
      \<longrightarrow> (\<exists>j1 j2 l1 l2. j1 \<noteq> j2 \<and>
             j1 = ''I'' @ stripNamespace (rname r1) @ stripNamespace (rname a1) \<and>
             j2 = ''I'' @ stripNamespace (rname r2) @ stripNamespace (rname a2) \<and>
             interfaceDef cd a1 j1 l1 \<in> set (buffer s1') \<and>
             interfaceDef cd a2 j2 l2 \<in> set (buffer s2')))"
proof -
  have nested: "(\<exists>s1 s2. convertRecord cd r' s1 (Some r)
                       = Inr (''I'' @ stripNamespace (rname r) @ stripNamespace (rname r'), s2)
                     \<and> set (buffer s2) \<subseteq> set (buffer s'))
          \<and> (\<exists>lines. interfaceDef cd r'
                         (''I'' @ stripNamespace (rname r) @ stripNamespace (rname r')) lines
                       \<in> set (buffer s'))"
    if run: "convertRecord cd r s parent = Inr (ident, s')"
      and mem: "Field n d dflt (Rec r') \<in> set (rfields r)"
    for r s parent ident s' n d dflt r'
  proof -
    from record_field [OF run mem] obtain s1 l s2 where
      f: "convertFieldDec cd (Field n d dflt (Rec r')) s1 (Some r) = Inr (l, s2)"
      and sub: "set (buffer s2) \<subseteq> set (buffer s')"
      by blast
    from f obtain ty where sub_run: "convertRecord cd r' s1 (Some r) = Inr (ty, s2)"
      by (auto simp: Let_def split: sum.splits)
    from convertRecord_Inr [OF sub_run]
    have ty: "ty = ''I'' @ stripNamespace (rname r) @ stripNamespace (rname r')"
      by (simp add: cleanName_def)
    from record_block [OF sub_run] obtain lines where
      "interfaceDef cd r' (cleanName r' (Some r)) lines \<in> set (buffer s2)"
      by blast
    with sub have "interfaceDef cd r'
        (''I'' @ stripNamespace (rname r) @ stripNamespace (rname r')) lines \<in> set (buffer s')"
      by (auto simp: cleanName_def)
    with sub_run ty sub show ?thesis by blast
  qed
  show ?thesis
  proof (intro conjI impI)
    assume a: "convertRecord cd r s (Some p) = Inr (ident, s')"
    from convertRecord_Inr [OF a]
    show "ident = ''I'' @ stripNamespace (rname p) @ stripNamespace (rname r)"
      by (simp add: cleanName_def)
    from convertRecord_Inr [OF a]
    show "\<exists>lines. last (buffer s') = interfaceDef cd r ident lines"
      by auto
  next
    assume a: "convertRecord cd r s None = Inr (ident, s')"
    from convertRecord_Inr [OF a]
    show "ident = ''I'' @ stripNamespace (rname r)"
      by (simp add: cleanName_def)
    from convertRecord_Inr [OF a]
    show "\<exists>lines. last (buffer s') = interfaceDef cd r ident lines"
      by auto
  next
    assume a: "avroToTypeScript cd (TopRecord r) tbl log = Inr (text, s')"
    then obtain i where run: "convertRecord cd r \<lparr>buffer = [], interfaces = tbl, console = log\<rparr> None
                                = Inr (i, s')"
      and joined: "text = join NL (buffer s')"
      by (auto simp: avroToTypeScript_def split: sum.splits)
    from joined show "text = join NL (buffer s')" .
    from convertRecord_Inr [OF run]
    show "\<exists>lines. last (buffer s') = interfaceDef cd r (''I'' @ stripNamespace (rname r)) lines"
      by (auto simp: cleanName_def)
  next
    assume a: "convertRecord cd r s parent = Inr (ident, s') \<and>
               Field n d dflt (Rec r') \<in> set (rfields r)"
    then have run: "convertRecord cd r s parent = Inr (ident, s')"
      and mem: "Field n d dflt (Rec r') \<in> set (rfields r)"
      by simp_all
    from nested [OF run mem]
    show "\<exists>s1 s2. convertRecord cd r' s1 (Some r)
                       = Inr (''I'' @ stripNamespace (rname r) @ stripNamespace (rname r'), s2)
                     \<and> set (buffer s2) \<subseteq> set (buffer s')"
      by (rule conjunct1)
    from nested [OF run mem]
    show "\<exists>lines. interfaceDef cd r'
                         (''I'' @ stripNamespace (rname r) @ stripNamespace (rname r')) lines
                       \<in> set (buffer s')"
      by (rule conjunct2)
  next
    assume a: "convertRecord cd r1 s1 q1 = Inr (i1, s1') \<and> Field n1 d1 dflt1 (Rec a1) \<in> set (rfields r1) \<and>
      convertRecord cd r2 s2 q2 = Inr (i2, s2') \<and> Field n2 d2 dflt2 (Rec a2) \<in> set (rfields r2) \<and>
      rname a1 = rname a2 \<and> stripNamespace (rname r1) \<noteq> stripNamespace (rname r2)"
    then have run1: "convertRecord cd r1 s1 q1 = Inr (i1, s1')"
      and mem1: "Field n1 d1 dflt1 (Rec a1) \<in> set (rfields r1)"
      and run2: "convertRecord cd r2 s2 q2 = Inr (i2, s2')"
      and mem2: "Field n2 d2 dflt2 (Rec a2) \<in> set (rfields r2)"
      and same: "rname a1 = rname a2"
      and diff: "stripNamespace (rname r1) \<noteq> stripNamespace (rname r2)"
      by simp_all
    from nested [OF run1 mem1] obtain l1 where
      b1: "interfaceDef cd a1 (''I'' @ stripNamespace (rname r1) @ stripNamespace (rname a1)) l1
             \<in> set (buffer s1')"
      by (elim conjE exE)
    from nested [OF run2 mem2] obtain l2 where
      b2: "interfaceDef cd a2 (''I'' @ stripNamespace (rname r2) @ stripNamespace (rname a2)) l2
             \<in> set (buffer s2')"
      by (elim conjE exE)
    from same diff have ne: "''I'' @ stripNamespace (rname r1) @ stripNamespace (rname a1)
                 \<noteq> ''I'' @ stripNamespace (rname r2) @ stripNamespace (rname a2)"
      by simp
    show "\<exists>j1 j2 l1 l2. j1 \<noteq> j2 \<and>
             j1 = ''I'' @ stripNamespace (rname r1) @ stripNamespace (rname a1) \<and>
             j2 = ''I'' @ stripNamespace (rname r2) @ stripNamespace (rname a2) \<and>
             interfaceDef cd a1 j1 l1 \<in> set (buffer s1') \<and>
             interfaceDef cd a2 j2 l2 \<in> set (buffer s2')"
      using ne b1 b2 by (intro exI conjI) (assumption | rule refl)+
  qed
qed

theorem C3_record_identifier_witness:
  "convertRecord createDocumentation
       (RecordType ''ns.B'' None [Field ''c'' None None (Rec (RecordType ''C'' None []))])
       emptyState
       (Some (RecordType ''A'' None [Field ''b'' None None (Rec (RecordType ''ns.B'' None
                [Field ''c'' None None (Rec (RecordType ''C'' None []))]))]))
     = Inr (''IAB'',
            emptyState\<lparr>buffer := [''export interface IBC {'' @ NL @ NL @ ''}'' @ NL,
                                   ''export interface IAB {'' @ NL @ TAB @ ''c: IBC;'' @ NL @ ''}'' @ NL],
                       interfaces := [''C'' \<mapsto> ''IBC'', ''ns.B'' \<mapsto> ''IAB'']\<rparr>)
   \<and> ''IAB'' = ''I'' @ stripNamespace ''A'' @ stripNamespace ''ns.B''
   \<and> (\<exists>lines. interfaceDef createDocumentation (RecordType ''C'' None [])
                  (''I'' @ stripNamespace ''ns.B'' @ stripNamespace ''C'') lines
          \<in> set [''export interface IBC {'' @ NL @ NL @ ''}'' @ NL,
                 ''export interface IAB {'' @ NL @ TAB @ ''c: IBC;'' @ NL @ ''}'' @ NL])
   \<and> avroToTypeScript createDocumentation (TopRecord (RecordType ''ns.Address'' None [])) Map.empty []
     = Inr (''export interface IAddress {'' @ NL @ NL @ ''}'' @ NL,
            \<lparr>buffer = [''export interface IAddress {'' @ NL @ NL @ ''}'' @ NL],
               interfaces = [''ns.Address'' \<mapsto> ''IAddress''], console = []\<rparr>)
   \<and> convertRecord createDocumentation (RecordType ''ns.Address'' None []) emptyState None
     = Inr (''IAddress'',
            emptyState\<lparr>buffer := [''export interface IAddress {'' @ NL @ NL @ ''}'' @ NL],
                       interfaces := [''ns.Address'' \<mapsto> ''IAddress'']\<rparr>)
   \<and> ''IAddress'' = ''I'' @ stripNamespace ''ns.Address''
   \<and> stripNamespace ''a.Person'' \<noteq> stripNamespace ''b.Firm''
   \<and> (\<exists>j1 j2 l1 l2. j1 \<noteq> j2 \<and>
         j1 = ''I'' @ stripNamespace ''a.Person'' @ stripNamespace ''Address'' \<and>
         j2 = ''I'' @ stripNamespace ''b.Firm'' @ stripNamespace ''Address'' \<and>
         interfaceDef createDocumentation (RecordType ''Address'' None []) j1 l1
           \<in> set [''export interface IPersonAddress {'' @ NL @ NL @ ''}'' @ NL,
                  ''export interface IPerson {'' @ NL @ TAB @ ''home: IPersonAddress;'' @ NL @ ''}'' @ NL] \<and>
         interfaceDef createDocumentation (RecordType ''Address'' None []) j2 l2
           \<in> set [''export interface IFirmAddress {'' @ NL @ NL @ ''}'' @ NL,
                  ''export interface IFirm {'' @ NL @ TAB @ ''home: IFirmAddress;'' @ NL @ ''}'' @ NL])"
proof -
  let ?cd = createDocumentation
  let ?C = "RecordType ''C'' None []"
  let ?B = "RecordType ''ns.B'' None [Field ''c'' None None (Rec ?C)]"
  let ?A = "RecordType ''A'' None [Field ''b'' None None (Rec ?B)]"
  let ?bufB = "[''export interface IBC {'' @ NL @ NL @ ''}'' @ NL,
                ''export interface IAB {'' @ NL @ TAB @ ''c: IBC;'' @ NL @ ''}'' @ NL]"
  let ?sB = "emptyState\<lparr>buffer := ?bufB, interfaces := [''C'' \<mapsto> ''IBC'', ''ns.B'' \<mapsto> ''IAB'']\<rparr>"
  let ?Addr = "RecordType ''Address'' None []"
  let ?NsAddr = "RecordType ''ns.Address'' None []"
  let ?sAddr = "emptyState\<lparr>buffer := [''export interface IAddress {'' @ NL @ NL @ ''}'' @ NL],
                       interfaces := [''ns.Address'' \<mapsto> ''IAddress'']\<rparr>"
  let ?tAddr = "\<lparr>buffer = [''export interface IAddress {'' @ NL @ NL @ ''}'' @ NL],
               interfaces = [''ns.Address'' \<mapsto> ''IAddress''], console = []\<rparr>"
  let ?Person = "RecordType ''a.Person'' None [Field ''home'' None None (Rec ?Addr)]"
  let ?Firm = "RecordType ''b.Firm'' None [Field ''home'' None None (Rec ?Addr)]"
  let ?bufP = "[''export interface IPersonAddress {'' @ NL @ NL @ ''}'' @ NL,
                ''export interface IPerson {'' @ NL @ TAB @ ''home: IPersonAddress;'' @ NL @ ''}'' @ NL]"
  let ?bufF = "[''export interface IFirmAddress {'' @ NL @ NL @ ''}'' @ NL,
                ''export interface IFirm {'' @ NL @ TAB @ ''home: IFirmAddress;'' @ NL @ ''}'' @ NL]"
  let ?sP = "emptyState\<lparr>buffer := ?bufP,
               interfaces := [''Address'' \<mapsto> ''IPersonAddress'', ''a.Person'' \<mapsto> ''IPerson'']\<rparr>"
  let ?sF = "emptyState\<lparr>buffer := ?bufF,
               interfaces := [''Address'' \<mapsto> ''IFirmAddress'', ''b.Firm'' \<mapsto> ''IFirm'']\<rparr>"
  have runB: "convertRecord ?cd ?B emptyState (Some ?A) = Inr (''IAB'', ?sB)"
    by (simp add: run_defs)
  have memC: "Field ''c'' None None (Rec ?C) \<in> set (rfields ?B)"
    by simp
  have runTop: "avroToTypeScript ?cd (TopRecord ?NsAddr) Map.empty []
                  = Inr (''export interface IAddress {'' @ NL @ NL @ ''}'' @ NL, ?tAddr)"
    by (simp add: run_defs avroToTypeScript_def)
  have runAddr: "convertRecord ?cd ?NsAddr emptyState None = Inr (''IAddress'', ?sAddr)"
    by (simp add: run_defs)
  have runP: "convertRecord ?cd ?Person emptyState None = Inr (''IPerson'', ?sP)"
    by (simp add: run_defs)
  have runF: "convertRecord ?cd ?Firm emptyState None = Inr (''IFirm'', ?sF)"
    by (simp add: run_defs)
  have memP: "Field ''home'' None None (Rec ?Addr) \<in> set (rfields ?Person)"
    and memF: "Field ''home'' None None (Rec ?Addr) \<in> set (rfields ?Firm)"
    by simp_all
  have ne: "stripNamespace ''a.Person'' \<noteq> stripNamespace ''b.Firm''"
    by (simp add: stripNamespace_def)
  note nestedB = C3_record_identifier
    [where cd = ?cd and r = ?B and s = emptyState and p = ?A and parent = "Some ?A"
       and ident = "''IAB''" and s' = ?sB and n = "''c''" and d = None and dflt = None and r' = ?C]
  from nestedB [THEN conjunct1, THEN mp, OF runB, THEN conjunct1]
  have a: "''IAB'' = ''I'' @ stripNamespace (rname ?A) @ stripNamespace (rname ?B)" .
  from nestedB [THEN conjunct2, THEN conjunct2, THEN conjunct2, THEN conjunct1, THEN mp,
                OF conjI [OF runB memC], THEN conjunct2]
  have b: "\<exists>lines. interfaceDef ?cd ?C
             (''I'' @ stripNamespace (rname ?B) @ stripNamespace (rname ?C)) lines \<in> set (buffer ?sB)" .
  note top = C3_record_identifier
    [where cd = ?cd and r = ?NsAddr and s = emptyState and ident = "''IAddress''" and s' = ?sAddr]
  from top [THEN conjunct2, THEN conjunct1, THEN mp, OF runAddr, THEN conjunct1]
  have c: "''IAddress'' = ''I'' @ stripNamespace (rname ?NsAddr)" .
  note apart = C3_record_identifier
    [where cd = ?cd and ?r1.0 = ?Person and ?s1.0 = emptyState and ?q1.0 = None
       and ?i1.0 = "''IPerson''" and ?s1' = ?sP and ?n1.0 = "''home''" and ?d1.0 = None
       and ?dflt1.0 = None and ?a1.0 = ?Addr
       and ?r2.0 = ?Firm and ?s2.0 = emptyState and ?q2.0 = None
       and ?i2.0 = "''IFirm''" and ?s2' = ?sF and ?n2.0 = "''home''" and ?d2.0 = None
       and ?dflt2.0 = None and ?a2.0 = ?Addr]
  have ne2: "stripNamespace (rname ?Person) \<noteq> stripNamespace (rname ?Firm)"
    by (simp add: stripNamespace_def)
  have hyp: "convertRecord ?cd ?Person emptyState None = Inr (''IPerson'', ?sP) \<and>
             Field ''home'' None None (Rec ?Addr) \<in> set (rfields ?Person) \<and>
             convertRecord ?cd ?Firm emptyState None = Inr (''IFirm'', ?sF) \<and>
             Field ''home'' None None (Rec ?Addr) \<in> set (rfields ?Firm) \<and>
             rname ?Addr = rname ?Addr \<and>
             stripNamespace (rname ?Person) \<noteq> stripNamespace (rname ?Firm)"
    using runP memP runF memF ne2 by (intro conjI refl)
  from apart [THEN conjunct2, THEN conjunct2, THEN conjunct2, THEN conjunct2, THEN mp, OF hyp]
  have d: "\<exists>j1 j2 l1 l2. j1 \<noteq> j2 \<and>
         j1 = ''I'' @ stripNamespace (rname ?Person) @ stripNamespace (rname ?Addr) \<and>
         j2 = ''I'' @ stripNamespace (rname ?Firm) @ stripNamespace (rname ?Addr) \<and>
         interfaceDef ?cd ?Addr j1 l1 \<in> set (buffer ?sP) \<and>
         interfaceDef ?cd ?Addr j2 l2 \<in> set (buffer ?sF)" .
  from a have a': "''IAB'' = ''I'' @ stripNamespace ''A'' @ stripNamespace ''ns.B''"
    by (simp only: recordType.sel)
  from b have b': "\<exists>lines. interfaceDef ?cd ?C
             (''I'' @ stripNamespace ''ns.B'' @ stripNamespace ''C'') lines \<in> set ?bufB"
    by (simp only: recordType.sel) (simp add: emptyState_def)
  from c have c': "''IAddress'' = ''I'' @ stripNamespace ''ns.Address''"
    by (simp only: recordType.sel)
  from d have d': "\<exists>j1 j2 l1 l2. j1 \<noteq> j2 \<and>
         j1 = ''I'' @ stripNamespace ''a.Person'' @ stripNamespace ''Address'' \<and>
         j2 = ''I'' @ stripNamespace ''b.Firm'' @ stripNamespace ''Address'' \<and>
         interfaceDef ?cd ?Addr j1 l1 \<in> set ?bufP \<and>
         interfaceDef ?cd ?Addr j2 l2 \<in> set ?bufF"
    by (simp only: recordType.sel) (simp add: emptyState_def)
  from runB a' b' runTop runAddr c' ne d' show ?thesis
    by (intro conjI)
qed

section \<open>The parent of a nested record (C6)\<close>

text \<open>
  C6, as claimed: a record reached through array items, map values or union members of a
  parent's field gets that parent. The record \<open>Address\<close> below is the item type of a field of
  \<open>Person\<close>; it is registered as \<open>IAddress\<close>, where the parent would give \<open>IPersonAddress\<close>.
  The same happens below a map and in a union.
\<close>

theorem C6_indirect_record_has_no_parent:
  "tableOf (convertFieldDec createDocumentation
       (Field ''homes'' None None (ArrayT (Rec (RecordType ''Address'' None []))))
       emptyState (Some (RecordType ''Person'' None []))) ''Address'' = Some ''IAddress''
   \<and> tableOf (convertFieldDec createDocumentation
       (Field ''homes'' None None (MapT (Rec (RecordType ''Address'' None []))))
       emptyState (Some (RecordType ''Person'' None []))) ''Address'' = Some ''IAddress''
   \<and> tableOf (convertFieldDec createDocumentation
       (Field ''home'' None None (Union [Prim ''null'', Rec (RecordType ''Address'' None [])]))
       emptyState (Some (RecordType ''Person'' None []))) ''Address'' = Some ''IAddress''
   \<and> cleanName (RecordType ''Address'' None []) (Some (RecordType ''Person'' None []))
       = ''IPersonAddress''"
  by (simp add: run_defs tableOf_def)

text \<open>
  A record that is the item type of an array, the value type of a map or a member of a
  union, at any position, is translated with no parent.
\<close>

lemma indirect_record:
  assumes "convertType cd t dv s parent = Inr (ty, s')"
    and "t = ArrayT (Rec r') \<or> t = MapT (Rec r') \<or> (\<exists>ts. t = Union ts \<and> Rec r' \<in> set ts)"
  shows "\<exists>s1 s2 lines.
           convertRecord cd r' s1 None = Inr (''I'' @ stripNamespace (rname r'), s2)
           \<and> set (buffer s2) \<subseteq> set (buffer s')
           \<and> interfaceDef cd r' (''I'' @ stripNamespace (rname r')) lines \<in> set (buffer s')"
proof -
  have "\<exists>s1 s2. convertRecord cd r' s1 None = Inr (''I'' @ stripNamespace (rname r'), s2)
                 \<and> set (buffer s2) \<subseteq> set (buffer s')"
    using assms(2)
  proof (elim disjE exE conjE)
    assume t: "t = ArrayT (Rec r')"
    with assms(1) obtain i where run: "convertRecord cd r' s None = Inr (i, s')"
      by (auto split: sum.splits)
    from convertRecord_Inr [OF run] have "i = ''I'' @ stripNamespace (rname r')"
      by (simp add: cleanName_def)
    with run show ?thesis by blast
  next
    assume t: "t = MapT (Rec r')"
    with assms(1) obtain i where run: "convertRecord cd r' s None = Inr (i, s')"
      by (auto split: sum.splits)
    from convertRecord_Inr [OF run] have "i = ''I'' @ stripNamespace (rname r')"
      by (simp add: cleanName_def)
    with run show ?thesis by blast
  next
    fix ts
    assume t: "t = Union ts" and mem: "Rec r' \<in> set ts"
    with assms(1) obtain ns where m: "convertMembers cd ts dv s = Inr (ns, s')"
      by (auto split: sum.splits)
    from members_member [OF m mem] obtain s1 n s2 where
      run: "convertRecord cd r' s1 None = Inr (n, s2)" and sub: "set (buffer s2) \<subseteq> set (buffer s')"
      by auto
    from convertRecord_Inr [OF run] have "n = ''I'' @ stripNamespace (rname r')"
      by (simp add: cleanName_def)
    with run sub show ?thesis by blast
  qed
  then obtain s1 s2 where
    run: "convertRecord cd r' s1 None = Inr (''I'' @ stripNamespace (rname r'), s2)"
    and sub: "set (buffer s2) \<subseteq> set (buffer s')"
    by blast
  from record_block [OF run] obtain lines where
    "interfaceDef cd r' (cleanName r' None) lines \<in> set (buffer s2)"
    by blast
  with sub have "interfaceDef cd r' (''I'' @ stripNamespace (rname r')) lines \<in> set (buffer s')"
    by (auto simp: cleanName_def)
  with run sub show ?thesis by blast
qed

text \<open>
  C6, amended. A record that is itself the type of a field is translated with the record
  the field belongs to as its parent. The translation of an array, a map or a union does
  not depend on the parent it is given: a record that is the item type of an array, the
  value type of a map or a member of a union (at any position) is translated with no
  parent and named \<open>I\<close> and its own stripped name, also when the array, map or union is the
  type of a record's field.
\<close>

theorem C6_parent_only_for_direct_field_type:
  "convertType cd (Rec r') dv s parent = convertRecord cd r' s parent
   \<and> convertType cd (ArrayT t) dv s parent = convertType cd (ArrayT t) dv s None
   \<and> convertType cd (MapT t) dv s parent = convertType cd (MapT t) dv s None
   \<and> convertType cd (Union ts) dv s parent = convertType cd (Union ts) dv s None
   \<and> (convertRecord cd r s parent = Inr (ident, s') \<and> Field n d dflt (Rec r') \<in> set (rfields r)
      \<longrightarrow> (\<exists>s1 s2 lines. convertRecord cd r' s1 (Some r)
                       = Inr (''I'' @ stripNamespace (rname r) @ stripNamespace (rname r'), s2)
                     \<and> set (buffer s2) \<subseteq> set (buffer s')
                     \<and> interfaceDef cd r'
                           (''I'' @ stripNamespace (rname r) @ stripNamespace (rname r')) lines
                         \<in> set (buffer s')))
   \<and> (convertRecord cd r s parent = Inr (ident, s') \<and> Field n d dflt u \<in> set (rfields r) \<and>
      (u = ArrayT (Rec r') \<or> u = MapT (Rec r') \<or> (\<exists>us. u = Union us \<and> Rec r' \<in> set us))
      \<longrightarrow> (\<exists>s1 s2 lines.
             convertRecord cd r' s1 None = Inr (''I'' @ stripNamespace (rname r'), s2)
             \<and> set (buffer s2) \<subseteq> set (buffer s')
             \<and> interfaceDef cd r' (''I'' @ stripNamespace (rname r')) lines \<in> set (buffer s')))
   \<and> (convertType cd u dv s parent = Inr (ty, s') \<and>
      (u = ArrayT (Rec r') \<or> u = MapT (Rec r') \<or> (\<exists>us. u = Union us \<and> Rec r' \<in> set us))
      \<longrightarrow> (\<exists>s1 s2 lines.
             convertRecord cd r' s1 None = Inr (''I'' @ stripNamespace (rname r'), s2)
             \<and> set (buffer s2) \<subseteq> set (buffer s')
             \<and> interfaceDef cd r' (''I'' @ stripNamespace (rname r')) lines \<in> set (buffer s')))"
proof (intro conjI impI)
  assume a: "convertRecord cd r s parent = Inr (ident, s') \<and> Field n d dflt (Rec r') \<in> set (rfields r)"
  then have run: "convertRecord cd r s parent = Inr (ident, s')"
    and mem: "Field n d dflt (Rec r') \<in> set (rfields r)"
    by simp_all
  from record_field [OF run mem] obtain s1 l s2 where
    f: "convertFieldDec cd (Field n d dflt (Rec r')) s1 (Some r) = Inr (l, s2)"
    and sub: "set (buffer s2) \<subseteq> set (buffer s')"
    by blast
  from f obtain i where sub_run: "convertRecord cd r' s1 (Some r) = Inr (i, s2)"
    by (auto simp: Let_def split: sum.splits)
  from convertRecord_Inr [OF sub_run]
  have i: "i = ''I'' @ stripNamespace (rname r) @ stripNamespace (rname r')"
    by (simp add: cleanName_def)
  from record_block [OF sub_run] obtain lines where
    "interfaceDef cd r' (cleanName r' (Some r)) lines \<in> set (buffer s2)"
    by blast
  with sub have "interfaceDef cd r'
      (''I'' @ stripNamespace (rname r) @ stripNamespace (rname r')) lines \<in> set (buffer s')"
    by (auto simp: cleanName_def)
  with sub_run sub i
  show "\<exists>s1 s2 lines. convertRecord cd r' s1 (Some r)
                       = Inr (''I'' @ stripNamespace (rname r) @ stripNamespace (rname r'), s2)
                     \<and> set (buffer s2) \<subseteq> set (buffer s')
                     \<and> interfaceDef cd r'
                           (''I'' @ stripNamespace (rname r) @ stripNamespace (rname r')) lines
                         \<in> set (buffer s')"
    by blast
next
  assume a: "convertRecord cd r s parent = Inr (ident, s') \<and> Field n d dflt u \<in> set (rfields r) \<and>
      (u = ArrayT (Rec r') \<or> u = MapT (Rec r') \<or> (\<exists>us. u = Union us \<and> Rec r' \<in> set us))"
  then have run: "convertRecord cd r s parent = Inr (ident, s')"
    and mem: "Field n d dflt u \<in> set (rfields r)"
    and shape: "u = ArrayT (Rec r') \<or> u = MapT (Rec r') \<or> (\<exists>us. u = Union us \<and> Rec r' \<in> set us)"
    by simp_all
  from record_field [OF run mem] obtain s1 l s2 where
    f: "convertFieldDec cd (Field n d dflt u) s1 (Some r) = Inr (l, s2)"
    and sub: "set (buffer s2) \<subseteq> set (buffer s')"
    by blast
  from f obtain ty1 where t: "convertType cd u (hasDefaultValue dflt) s1 (Some r) = Inr (ty1, s2)"
    by (auto simp: Let_def split: sum.splits)
  from indirect_record [OF t shape] obtain s3 s4 lines where
    "convertRecord cd r' s3 None = Inr (''I'' @ stripNamespace (rname r'), s4)"
    and "set (buffer s4) \<subseteq> set (buffer s2)"
    and "interfaceDef cd r' (''I'' @ stripNamespace (rname r')) lines \<in> set (buffer s2)"
    by blast
  with sub
  show "\<exists>s1 s2 lines.
             convertRecord cd r' s1 None = Inr (''I'' @ stripNamespace (rname r'), s2)
             \<and> set (buffer s2) \<subseteq> set (buffer s')
             \<and> interfaceDef cd r' (''I'' @ stripNamespace (rname r')) lines \<in> set (buffer s')"
    by blast
next
  assume a: "convertType cd u dv s parent = Inr (ty, s') \<and>
      (u = ArrayT (Rec r') \<or> u = MapT (Rec r') \<or> (\<exists>us. u = Union us \<and> Rec r' \<in> set us))"
  then have t: "convertType cd u dv s parent = Inr (ty, s')"
    and shape: "u = ArrayT (Rec r') \<or> u = MapT (Rec r') \<or> (\<exists>us. u = Union us \<and> Rec r' \<in> set us)"
    by simp_all
  from indirect_record [OF t shape]
  show "\<exists>s1 s2 lines.
             convertRecord cd r' s1 None = Inr (''I'' @ stripNamespace (rname r'), s2)
             \<and> set (buffer s2) \<subseteq> set (buffer s')
             \<and> interfaceDef cd r' (''I'' @ stripNamespace (rname r')) lines \<in> set (buffer s')" .
qed simp_all

theorem C6_parent_only_for_direct_field_type_witness:
  "convertRecord createDocumentation
       (RecordType ''P'' None
          [Field ''home'' None None (Rec (RecordType ''Address'' None [])),
           Field ''last'' None None (Union [Prim ''null'', Rec (RecordType ''Site'' None [])])])
       emptyState None
     = Inr (''IP'',
            emptyState\<lparr>buffer :=
                 [''export interface IPAddress {'' @ NL @ NL @ ''}'' @ NL,
                  ''export interface ISite {'' @ NL @ NL @ ''}'' @ NL,
                  ''export interface IP {'' @ NL @ TAB @ ''home: IPAddress;'' @ NL @
                    TAB @ ''last?: null | undefined | ISite;'' @ NL @ ''}'' @ NL],
               interfaces := [''Address'' \<mapsto> ''IPAddress'', ''Site'' \<mapsto> ''ISite'', ''P'' \<mapsto> ''IP'']\<rparr>)
   \<and> (\<exists>lines. interfaceDef createDocumentation (RecordType ''Address'' None [])
                  (''I'' @ stripNamespace ''P'' @ stripNamespace ''Address'') lines
         \<in> set [''export interface IPAddress {'' @ NL @ NL @ ''}'' @ NL,
                ''export interface ISite {'' @ NL @ NL @ ''}'' @ NL,
                ''export interface IP {'' @ NL @ TAB @ ''home: IPAddress;'' @ NL @
                  TAB @ ''last?: null | undefined | ISite;'' @ NL @ ''}'' @ NL])
   \<and> (\<exists>lines. interfaceDef createDocumentation (RecordType ''Site'' None [])
                  (''I'' @ stripNamespace ''Site'') lines
         \<in> set [''export interface IPAddress {'' @ NL @ NL @ ''}'' @ NL,
                ''export interface ISite {'' @ NL @ NL @ ''}'' @ NL,
                ''export interface IP {'' @ NL @ TAB @ ''home: IPAddress;'' @ NL @
                  TAB @ ''last?: null | undefined | ISite;'' @ NL @ ''}'' @ NL])
   \<and> convertType createDocumentation (ArrayT (Rec (RecordType ''ns.Address'' None []))) False emptyState
       (Some (RecordType ''Person'' None []))
     = Inr (''IAddress[]'',
            emptyState\<lparr>buffer := [''export interface IAddress {'' @ NL @ NL @ ''}'' @ NL],
                       interfaces := [''ns.Address'' \<mapsto> ''IAddress'']\<rparr>)
   \<and> (\<exists>lines. interfaceDef createDocumentation (RecordType ''ns.Address'' None [])
                  (''I'' @ stripNamespace ''ns.Address'') lines
         \<in> set [''export interface IAddress {'' @ NL @ NL @ ''}'' @ NL])"
proof -
  let ?cd = createDocumentation
  let ?Addr = "RecordType ''Address'' None []"
  let ?Site = "RecordType ''Site'' None []"
  let ?last = "Union [Prim ''null'', Rec ?Site]"
  let ?P = "RecordType ''P'' None [Field ''home'' None None (Rec ?Addr), Field ''last'' None None ?last]"
  let ?buf = "[''export interface IPAddress {'' @ NL @ NL @ ''}'' @ NL,
               ''export interface ISite {'' @ NL @ NL @ ''}'' @ NL,
               ''export interface IP {'' @ NL @ TAB @ ''home: IPAddress;'' @ NL @
                 TAB @ ''last?: null | undefined | ISite;'' @ NL @ ''}'' @ NL]"
  let ?s' = "emptyState\<lparr>buffer := ?buf,
               interfaces := [''Address'' \<mapsto> ''IPAddress'', ''Site'' \<mapsto> ''ISite'', ''P'' \<mapsto> ''IP'']\<rparr>"
  let ?NsAddr = "RecordType ''ns.Address'' None []"
  let ?arr = "ArrayT (Rec ?NsAddr)"
  let ?sa = "emptyState\<lparr>buffer := [''export interface IAddress {'' @ NL @ NL @ ''}'' @ NL],
                       interfaces := [''ns.Address'' \<mapsto> ''IAddress'']\<rparr>"
  have run: "convertRecord ?cd ?P emptyState None = Inr (''IP'', ?s')"
    by (simp add: run_defs)
  have direct: "convertRecord ?cd ?P emptyState None = Inr (''IP'', ?s') \<and>
                Field ''home'' None None (Rec ?Addr) \<in> set (rfields ?P)"
    using run by simp
  have indirect: "convertRecord ?cd ?P emptyState None = Inr (''IP'', ?s') \<and>
                  Field ''last'' None None ?last \<in> set (rfields ?P) \<and>
                  (?last = ArrayT (Rec ?Site) \<or> ?last = MapT (Rec ?Site) \<or>
                   (\<exists>us. ?last = Union us \<and> Rec ?Site \<in> set us))"
    using run by simp
  have arr: "convertType ?cd ?arr False emptyState (Some (RecordType ''Person'' None []))
               = Inr (''IAddress[]'', ?sa)"
    by (simp add: run_defs)
  have alone: "convertType ?cd ?arr False emptyState (Some (RecordType ''Person'' None []))
                 = Inr (''IAddress[]'', ?sa) \<and>
               (?arr = ArrayT (Rec ?NsAddr) \<or> ?arr = MapT (Rec ?NsAddr) \<or>
                (\<exists>us. ?arr = Union us \<and> Rec ?NsAddr \<in> set us))"
    using arr by simp
  note inst1 = C6_parent_only_for_direct_field_type
    [where cd = ?cd and r = ?P and s = emptyState and parent = None and ident = "''IP''" and s' = ?s'
       and n = "''home''" and d = None and dflt = None and r' = ?Addr]
  note inst2 = C6_parent_only_for_direct_field_type
    [where cd = ?cd and r = ?P and s = emptyState and parent = None and ident = "''IP''" and s' = ?s'
       and n = "''last''" and d = None and dflt = None and u = ?last and r' = ?Site]
  note inst3 = C6_parent_only_for_direct_field_type
    [where cd = ?cd and u = ?arr and dv = False and s = emptyState
       and parent = "Some (RecordType ''Person'' None [])" and ty = "''IAddress[]''" and s' = ?sa
       and r' = ?NsAddr]
  from inst1 [THEN conjunct2, THEN conjunct2, THEN conjunct2, THEN conjunct2, THEN conjunct1,
              THEN mp, OF direct]
  have a: "\<exists>lines. interfaceDef ?cd ?Addr
             (''I'' @ stripNamespace (rname ?P) @ stripNamespace (rname ?Addr)) lines \<in> set (buffer ?s')"
    by blast
  from inst2 [THEN conjunct2, THEN conjunct2, THEN conjunct2, THEN conjunct2, THEN conjunct2,
              THEN conjunct1, THEN mp, OF indirect]
  have b: "\<exists>lines. interfaceDef ?cd ?Site (''I'' @ stripNamespace (rname ?Site)) lines
             \<in> set (buffer ?s')"
    by blast
  from inst3 [THEN conjunct2, THEN conjunct2, THEN conjunct2, THEN conjunct2, THEN conjunct2,
              THEN conjunct2, THEN mp, OF alone]
  have c: "\<exists>lines. interfaceDef ?cd ?NsAddr (''I'' @ stripNamespace (rname ?NsAddr)) lines
             \<in> set (buffer ?sa)"
    by blast
  from a have a': "\<exists>lines. interfaceDef ?cd ?Addr
             (''I'' @ stripNamespace ''P'' @ stripNamespace ''Address'') lines \<in> set ?buf"
    by (simp only: recordType.sel) (simp add: emptyState_def)
  from b have b': "\<exists>lines. interfaceDef ?cd ?Site (''I'' @ stripNamespace ''Site'') lines \<in> set ?buf"
    by (simp only: recordType.sel) (simp add: emptyState_def)
  from c have c': "\<exists>lines. interfaceDef ?cd ?NsAddr (''I'' @ stripNamespace ''ns.Address'') lines
             \<in> set [''export interface IAddress {'' @ NL @ NL @ ''}'' @ NL]"
    by (simp only: recordType.sel) (simp add: emptyState_def)
  from run a' b' arr c' show ?thesis
    by (intro conjI)
qed

section \<open>The default flag below arrays and maps (C7)\<close>

text \<open>
  C7, as claimed: the items of an array and the values of a map are translated without the
  field's \<^verbatim>\<open>hasDefaultValue\<close>, so a \<open>null\<close> inside them renders as in the no-default path.
  The field below has the default \<^verbatim>\<open>null\<close>; the \<open>null\<close> inside its array and inside its map
  renders as \<open>null\<close>, not as \<open>null | undefined\<close>.
\<close>

theorem C7_default_reaches_items_and_values:
  "convertFieldDec createDocumentation (Field ''xs'' None (Some JNull) (ArrayT (Prim ''null'')))
       emptyState None
     = Inr (TAB @ ''xs: null[];'', emptyState)
   \<and> convertFieldDec createDocumentation (Field ''xs'' None None (ArrayT (Prim ''null'')))
       emptyState None
     = Inr (TAB @ ''xs: Array<null | undefined>;'', emptyState)
   \<and> convertFieldDec createDocumentation (Field ''m'' None (Some JNull) (MapT (Prim ''null'')))
       emptyState None
     = Inr (TAB @ ''m: { [key: string]: null };'', emptyState)
   \<and> convertFieldDec createDocumentation (Field ''m'' None None (MapT (Prim ''null'')))
       emptyState None
     = Inr (TAB @ ''m: { [key: string]: null | undefined };'', emptyState)"
  by (simp add: run_defs)

text \<open>
  C7, amended. The flag \<^verbatim>\<open>convertFieldDec\<close> computes for a field is handed on: the items of
  an array and the values of a map that is the field's type are translated with it (what
  is dropped there is the parent record). For a field whose default is \<^verbatim>\<open>null\<close> or truthy, a
  \<open>null\<close> that is the item type of its array or the value type of its map renders as
  \<open>null\<close>; for a field without a default key, as \<open>null | undefined\<close>. (The table must not
  hold the rendered texts as keys, nor the key \<open>hasOwnProperty\<close>.)
\<close>

theorem C7_flag_threaded_into_items_and_values:
  "convertFieldDec cd (Field n d dflt (MapT t)) s parent
     = (case convertType cd t (hasDefaultValue dflt) s None of
          Inl e \<Rightarrow> Inl e
        | Inr (ty, s') \<Rightarrow>
            (case resolve (interfaces s') (''{ [key: string]: '' @ ty @ '' }'') of
               Inl e \<Rightarrow> Inl e
             | Inr replaced \<Rightarrow>
                 Inr (fieldLine cd (Field n d dflt (MapT t)) (hasDefaultValue dflt) replaced, s')))
   \<and> convertFieldDec cd (Field n d dflt (ArrayT t)) s parent
     = (case convertType cd t (hasDefaultValue dflt) s None of
          Inl e \<Rightarrow> Inl e
        | Inr (ty, s') \<Rightarrow>
            (case resolve (interfaces s') (stripNamespace ty) of
               Inl e \<Rightarrow> Inl e
             | Inr properName \<Rightarrow>
                 (case resolve (interfaces s')
                         (if isUnion properName then ''Array<'' @ properName @ ''>''
                          else properName @ ''[]'') of
                    Inl e \<Rightarrow> Inl e
                  | Inr replaced \<Rightarrow>
                      Inr (fieldLine cd (Field n d dflt (ArrayT t)) (hasDefaultValue dflt) replaced,
                           s'))))
   \<and> (dflt = Some v \<and> (v = JNull \<or> truthy v) \<and> interfaces s ''hasOwnProperty'' = None \<and>
      interfaces s ''{ [key: string]: null }'' = None
      \<longrightarrow> convertFieldDec cd (Field n d dflt (MapT (Prim ''null''))) s parent
            = Inr (cd d 80 TAB @ TAB @ n @ '': { [key: string]: null };'', s))
   \<and> (dflt = None \<and> interfaces s ''hasOwnProperty'' = None \<and>
      interfaces s ''{ [key: string]: null | undefined }'' = None
      \<longrightarrow> convertFieldDec cd (Field n d dflt (MapT (Prim ''null''))) s parent
            = Inr (cd d 80 TAB @ TAB @ n @ '': { [key: string]: null | undefined };'', s))
   \<and> (dflt = Some v \<and> (v = JNull \<or> truthy v) \<and> interfaces s ''hasOwnProperty'' = None \<and>
      interfaces s ''null'' = None \<and> interfaces s ''null[]'' = None
      \<longrightarrow> convertFieldDec cd (Field n d dflt (ArrayT (Prim ''null''))) s parent
            = Inr (cd d 80 TAB @ TAB @ n @ '': null[];'', s))
   \<and> (dflt = None \<and> interfaces s ''hasOwnProperty'' = None \<and>
      interfaces s ''null | undefined'' = None \<and> interfaces s ''Array<null | undefined>'' = None
      \<longrightarrow> convertFieldDec cd (Field n d dflt (ArrayT (Prim ''null''))) s parent
            = Inr (cd d 80 TAB @ TAB @ n @ '': Array<null | undefined>;'', s))"
proof -
  have str: "stripNamespace ''null'' = ''null''"
    "stripNamespace ''null | undefined'' = ''null | undefined''"
    by (simp_all add: stripNamespace_def)
  have bar: "isUnion ''null | undefined''" "\<not> isUnion ''null''"
    by (simp_all add: isUnion_def)
  show ?thesis
  proof (intro conjI impI)
    show "convertFieldDec cd (Field n d dflt (MapT t)) s parent
     = (case convertType cd t (hasDefaultValue dflt) s None of
          Inl e \<Rightarrow> Inl e
        | Inr (ty, s') \<Rightarrow>
            (case resolve (interfaces s') (''{ [key: string]: '' @ ty @ '' }'') of
               Inl e \<Rightarrow> Inl e
             | Inr replaced \<Rightarrow>
                 Inr (fieldLine cd (Field n d dflt (MapT t)) (hasDefaultValue dflt) replaced, s')))"
      by (simp add: Let_def split: sum.splits)
  next
    show "convertFieldDec cd (Field n d dflt (ArrayT t)) s parent
     = (case convertType cd t (hasDefaultValue dflt) s None of
          Inl e \<Rightarrow> Inl e
        | Inr (ty, s') \<Rightarrow>
            (case resolve (interfaces s') (stripNamespace ty) of
               Inl e \<Rightarrow> Inl e
             | Inr properName \<Rightarrow>
                 (case resolve (interfaces s')
                         (if isUnion properName then ''Array<'' @ properName @ ''>''
                          else properName @ ''[]'') of
                    Inl e \<Rightarrow> Inl e
                  | Inr replaced \<Rightarrow>
                      Inr (fieldLine cd (Field n d dflt (ArrayT t)) (hasDefaultValue dflt) replaced,
                           s'))))"
      by (simp add: Let_def split: sum.splits)
  next
    assume "dflt = Some v \<and> (v = JNull \<or> truthy v) \<and> interfaces s ''hasOwnProperty'' = None \<and>
      interfaces s ''{ [key: string]: null }'' = None"
    then show "convertFieldDec cd (Field n d dflt (MapT (Prim ''null''))) s parent
            = Inr (cd d 80 TAB @ TAB @ n @ '': { [key: string]: null };'', s)"
      by (auto simp: Let_def hasDefaultValue_def convertPrimitive_def resolve_def fieldLine_def
                     document_def)
  next
    assume "dflt = None \<and> interfaces s ''hasOwnProperty'' = None \<and>
      interfaces s ''{ [key: string]: null | undefined }'' = None"
    then show "convertFieldDec cd (Field n d dflt (MapT (Prim ''null''))) s parent
            = Inr (cd d 80 TAB @ TAB @ n @ '': { [key: string]: null | undefined };'', s)"
      by (auto simp: Let_def hasDefaultValue_def convertPrimitive_def resolve_def fieldLine_def
                     document_def)
  next
    assume "dflt = Some v \<and> (v = JNull \<or> truthy v) \<and> interfaces s ''hasOwnProperty'' = None \<and>
      interfaces s ''null'' = None \<and> interfaces s ''null[]'' = None"
    then show "convertFieldDec cd (Field n d dflt (ArrayT (Prim ''null''))) s parent
            = Inr (cd d 80 TAB @ TAB @ n @ '': null[];'', s)"
      by (auto simp: Let_def hasDefaultValue_def convertPrimitive_def resolve_def fieldLine_def
                     document_def str bar)
  next
    assume "dflt = None \<and> interfaces s ''hasOwnProperty'' = None \<and>
      interfaces s ''null | undefined'' = None \<and> interfaces s ''Array<null | undefined>'' = None"
    then show "convertFieldDec cd (Field n d dflt (ArrayT (Prim ''null''))) s parent
            = Inr (cd d 80 TAB @ TAB @ n @ '': Array<null | undefined>;'', s)"
      by (auto simp: Let_def hasDefaultValue_def convertPrimitive_def resolve_def fieldLine_def
                     document_def str bar)
  qed
qed

theorem C7_flag_threaded_into_items_and_values_witness:
  "interfaces emptyState ''hasOwnProperty'' = None \<and> interfaces emptyState ''null'' = None
   \<and> interfaces emptyState ''null[]'' = None
   \<and> interfaces emptyState ''{ [key: string]: null }'' = None
   \<and> interfaces emptyState ''null | undefined'' = None
   \<and> interfaces emptyState ''Array<null | undefined>'' = None
   \<and> interfaces emptyState ''{ [key: string]: null | undefined }'' = None
   \<and> truthy (JStr ''none'')
   \<and> convertFieldDec createDocumentation (Field ''xs'' None (Some JNull) (ArrayT (Prim ''null'')))
         emptyState None
       = Inr (createDocumentation None 80 TAB @ TAB @ ''xs'' @ '': null[];'', emptyState)
   \<and> convertFieldDec createDocumentation (Field ''m'' None (Some (JStr ''none'')) (MapT (Prim ''null'')))
         emptyState None
       = Inr (createDocumentation None 80 TAB @ TAB @ ''m'' @ '': { [key: string]: null };'', emptyState)
   \<and> convertFieldDec createDocumentation (Field ''xs'' None None (ArrayT (Prim ''null'')))
         emptyState None
       = Inr (createDocumentation None 80 TAB @ TAB @ ''xs'' @ '': Array<null | undefined>;'', emptyState)
   \<and> convertFieldDec createDocumentation (Field ''m'' None None (MapT (Prim ''null'')))
         emptyState None
       = Inr (createDocumentation None 80 TAB @ TAB @ ''m'' @ '': { [key: string]: null | undefined };'',
              emptyState)"
proof -
  have tbl: "interfaces emptyState k = None" for k
    by (simp add: emptyState_def)
  have tr: "truthy (JStr ''none'')" by simp
  note arr_null = C7_flag_threaded_into_items_and_values
    [where cd = createDocumentation and n = "''xs''" and d = None and dflt = "Some JNull"
       and v = JNull and s = emptyState and parent = None]
  note map_str = C7_flag_threaded_into_items_and_values
    [where cd = createDocumentation and n = "''m''" and d = None and dflt = "Some (JStr ''none'')"
       and v = "JStr ''none''" and s = emptyState and parent = None]
  note arr_none = C7_flag_threaded_into_items_and_values
    [where cd = createDocumentation and n = "''xs''" and d = None and dflt = None
       and s = emptyState and parent = None]
  note map_none = C7_flag_threaded_into_items_and_values
    [where cd = createDocumentation and n = "''m''" and d = None and dflt = None
       and s = emptyState and parent = None]
  have a: "convertFieldDec createDocumentation (Field ''xs'' None (Some JNull) (ArrayT (Prim ''null'')))
         emptyState None
       = Inr (createDocumentation None 80 TAB @ TAB @ ''xs'' @ '': null[];'', emptyState)"
    by (rule arr_null [THEN conjunct2, THEN conjunct2, THEN conjunct2, THEN conjunct2, THEN conjunct1,
                       THEN mp]) (simp add: tbl)
  have b: "convertFieldDec createDocumentation (Field ''m'' None (Some (JStr ''none'')) (MapT (Prim ''null'')))
         emptyState None
       = Inr (createDocumentation None 80 TAB @ TAB @ ''m'' @ '': { [key: string]: null };'', emptyState)"
    by (rule map_str [THEN conjunct2, THEN conjunct2, THEN conjunct1, THEN mp]) (simp add: tbl)
  have c: "convertFieldDec createDocumentation (Field ''xs'' None None (ArrayT (Prim ''null'')))
         emptyState None
       = Inr (createDocumentation None 80 TAB @ TAB @ ''xs'' @ '': Array<null | undefined>;'', emptyState)"
    by (rule arr_none [THEN conjunct2, THEN conjunct2, THEN conjunct2, THEN conjunct2, THEN conjunct2,
                       THEN mp]) (simp add: tbl)
  have d: "convertFieldDec createDocumentation (Field ''m'' None None (MapT (Prim ''null'')))
         emptyState None
       = Inr (createDocumentation None 80 TAB @ TAB @ ''m'' @ '': { [key: string]: null | undefined };'',
              emptyState)"
    by (rule map_none [THEN conjunct2, THEN conjunct2, THEN conjunct2, THEN conjunct1, THEN mp])
       (simp add: tbl)
  from tbl tr a b c d show ?thesis
    by (intro conjI)
qed

section \<open>Unions (C5)\<close>

text \<open>
  The union case by itself: the members are translated in declared order, each on the state
  the previous one left, and each result is namespace-stripped; the stripped names are
  resolved through the table as it is after the last member; duplicates are removed, the
  first occurrence of each name kept (\<open>dedupFirst\<close>, which \<open>filter_isUnique\<close> computes); the
  rest is joined with \<open> | \<close>. With the flag unset the union of \<open>string\<close>, \<open>string\<close>, \<open>null\<close>
  renders as \<open>string | null | undefined\<close>, with the flag set as \<open>string | null\<close>.
\<close>

lemma union_rendering:
  "(convertMembers cd ts dv s = Inr (names, s') \<and> interfaces s' ''hasOwnProperty'' = None
      \<longrightarrow> convertType cd (Union ts) dv s parent
            = Inr (join '' | ''
                     (dedupFirst (map (\<lambda>n. case interfaces s' n of Some v \<Rightarrow> v | None \<Rightarrow> n) names)),
                   s'))
   \<and> convertMembers cd [] dv s = Inr ([], s)
   \<and> (convertType cd t dv s None = Inr (n, s1) \<and> convertMembers cd ts dv s1 = Inr (ns, s2)
      \<longrightarrow> convertMembers cd (t # ts) dv s = Inr (stripNamespace n # ns, s2))
   \<and> (interfaces s ''hasOwnProperty'' = None \<and> interfaces s ''string'' = None \<and>
      interfaces s ''null'' = None \<and> interfaces s ''null | undefined'' = None
      \<longrightarrow> convertType cd (Union [Prim ''string'', Prim ''string'', Prim ''null'']) False s parent
            = Inr (''string | null | undefined'', s)
        \<and> convertType cd (Union [Prim ''string'', Prim ''string'', Prim ''null'']) True s parent
            = Inr (''string | null'', s))"
proof (intro conjI impI)
  assume "convertMembers cd ts dv s = Inr (names, s') \<and> interfaces s' ''hasOwnProperty'' = None"
  then show "convertType cd (Union ts) dv s parent
            = Inr (join '' | ''
                     (dedupFirst (map (\<lambda>n. case interfaces s' n of Some v \<Rightarrow> v | None \<Rightarrow> n) names)),
                   s')"
    by (simp add: resolveAll_Inr filter_isUnique_dedupFirst)
next
  show "convertMembers cd [] dv s = Inr ([], s)" by simp
next
  assume "convertType cd t dv s None = Inr (n, s1) \<and> convertMembers cd ts dv s1 = Inr (ns, s2)"
  then show "convertMembers cd (t # ts) dv s = Inr (stripNamespace n # ns, s2)" by simp
next
  assume a: "interfaces s ''hasOwnProperty'' = None \<and> interfaces s ''string'' = None \<and>
      interfaces s ''null'' = None \<and> interfaces s ''null | undefined'' = None"
  have str: "stripNamespace ''string'' = ''string''" "stripNamespace ''null'' = ''null''"
     "stripNamespace ''null | undefined'' = ''null | undefined''"
    by (simp_all add: stripNamespace_def)
  from a have m1: "convertMembers cd [Prim ''string'', Prim ''string'', Prim ''null''] False s
                     = Inr ([''string'', ''string'', ''null | undefined''], s)"
    by (simp add: convertPrimitive_def resolve_def str)
  from a have m2: "convertMembers cd [Prim ''string'', Prim ''string'', Prim ''null''] True s
                     = Inr ([''string'', ''string'', ''null''], s)"
    by (simp add: convertPrimitive_def resolve_def str)
  from a m1 show "convertType cd (Union [Prim ''string'', Prim ''string'', Prim ''null'']) False s parent
            = Inr (''string | null | undefined'', s)"
    by (simp add: resolve_Inr filter_isUnique_dedupFirst del: convertMembers.simps)
  from a m2 show "convertType cd (Union [Prim ''string'', Prim ''string'', Prim ''null'']) True s parent
            = Inr (''string | null'', s)"
    by (simp add: resolve_Inr filter_isUnique_dedupFirst del: convertMembers.simps)
qed

lemma union_rendering_run:
  "interfaces emptyState ''hasOwnProperty'' = None \<and> interfaces emptyState ''string'' = None \<and>
   interfaces emptyState ''null'' = None \<and> interfaces emptyState ''null | undefined'' = None
   \<and> convertMembers createDocumentation [Prim ''x.B'', Prim ''A'', Prim ''y.B''] False emptyState
       = Inr ([''B'', ''A'', ''B''], emptyState)
   \<and> convertType createDocumentation (Union [Prim ''x.B'', Prim ''A'', Prim ''y.B'']) False emptyState None
       = Inr (''B | A'', emptyState)
   \<and> convertType createDocumentation (Union [Prim ''string'', Prim ''string'', Prim ''null''])
         False emptyState None
       = Inr (''string | null | undefined'', emptyState)
   \<and> convertType createDocumentation (Union [Prim ''string'', Prim ''string'', Prim ''null''])
         True emptyState None
       = Inr (''string | null'', emptyState)"
proof -
  have tbl: "interfaces emptyState ''hasOwnProperty'' = None \<and> interfaces emptyState ''string'' = None \<and>
   interfaces emptyState ''null'' = None \<and> interfaces emptyState ''null | undefined'' = None"
    by (simp add: emptyState_def)
  have mem: "convertMembers createDocumentation [Prim ''x.B'', Prim ''A'', Prim ''y.B''] False emptyState
       = Inr ([''B'', ''A'', ''B''], emptyState)"
    by (simp add: run_defs)
  note inst = union_rendering [of createDocumentation _ _ emptyState _ _ None _ _ _ _ _]
  from union_rendering [of createDocumentation "[Prim ''x.B'', Prim ''A'', Prim ''y.B'']" False
         emptyState "[''B'', ''A'', ''B'']" emptyState None] mem tbl
  have "convertType createDocumentation (Union [Prim ''x.B'', Prim ''A'', Prim ''y.B'']) False emptyState None
       = Inr (join '' | '' (dedupFirst (map (\<lambda>n. case interfaces emptyState n of
                                                 Some v \<Rightarrow> v | None \<Rightarrow> n) [''B'', ''A'', ''B''])),
              emptyState)"
    by blast
  then have u: "convertType createDocumentation (Union [Prim ''x.B'', Prim ''A'', Prim ''y.B'']) False
                  emptyState None = Inr (''B | A'', emptyState)"
    by (simp add: emptyState_def)
  from inst tbl
  have v: "convertType createDocumentation (Union [Prim ''string'', Prim ''string'', Prim ''null''])
         False emptyState None = Inr (''string | null | undefined'', emptyState)
      \<and> convertType createDocumentation (Union [Prim ''string'', Prim ''string'', Prim ''null''])
         True emptyState None = Inr (''string | null'', emptyState)"
    by blast
  from tbl mem u v show ?thesis by blast
qed

text \<open>
  C5. The claim: a union renders as the first occurrences of its translated, stripped and
  resolved members joined by \<open> | \<close>, so that \<open>string\<close>, \<open>string\<close>, \<open>null\<close> gives
  \<open>string | null | undefined\<close> for a field with no default and \<open>string | null\<close> for a field
  with a default. The union case does so for the flag it is given, but the flag of a field
  is \<^verbatim>\<open>hasDefaultValue\<close>, which is false for the defaults \<^verbatim>\<open>""\<close>, \<^verbatim>\<open>0\<close> and \<^verbatim>\<open>false\<close>: the
  fields below with default \<^verbatim>\<open>""\<close> and \<^verbatim>\<open>0\<close> render \<open>string | null | undefined\<close>, as the field
  without default does, where the field with default \<^verbatim>\<open>null\<close> renders \<open>string | null\<close>.
\<close>

theorem C5_falsy_default_union_rendered_undefined:
  "convertFieldDec createDocumentation
     (Field ''f'' None (Some (JStr [])) (Union [Prim ''string'', Prim ''string'', Prim ''null'']))
     emptyState None
   = Inr (TAB @ ''f?: string | null | undefined;'', emptyState)
   \<and> convertFieldDec createDocumentation
     (Field ''f'' None (Some (JNum 0)) (Union [Prim ''string'', Prim ''string'', Prim ''null'']))
     emptyState None
   = Inr (TAB @ ''f?: string | null | undefined;'', emptyState)
   \<and> convertFieldDec createDocumentation
     (Field ''f'' None (Some JNull) (Union [Prim ''string'', Prim ''string'', Prim ''null'']))
     emptyState None
   = Inr (TAB @ ''f: string | null;'', emptyState)
   \<and> convertFieldDec createDocumentation
     (Field ''f'' None None (Union [Prim ''string'', Prim ''string'', Prim ''null'']))
     emptyState None
   = Inr (TAB @ ''f?: string | null | undefined;'', emptyState)"
  by (simp add: run_defs)

section \<open>Nodes of unrecognised shape (C9)\<close>






lemma interfaceDef_doc:
  "rdoc r1 = rdoc r2 \<Longrightarrow> interfaceDef cd r1 i ls = interfaceDef cd r2 i ls"
  by (simp add: interfaceDef_def)





end
